theory Spec2Isabelle
  imports Complex_Main
begin

section \<open>Python values and errors\<close>

text \<open>
  The solvers of \<^verbatim>\<open>copt/randomized.py\<close> are modelled over the reals: a Python float is a
  \<open>real\<close>, an index is a \<open>nat\<close>, the iteration budget \<open>max_iter\<close> is an \<open>int\<close>.
  Every \<^verbatim>\<open>raise\<close> and every failing name lookup, attribute access, call or array read is
  an \<open>Inl\<close> of the result type.
\<close>

datatype error = ValueError | NameError | AttributeError | TypeError | IndexError
  | ZeroDivisionError

text \<open>What a call of a Python function evaluates to: a float, or \<^verbatim>\<open>None\<close> when the body
  ends without a \<^verbatim>\<open>return\<close>.\<close>

datatype pyval = PyNone | PyFloat real

fun bindE :: "error + 'a \<Rightarrow> ('a \<Rightarrow> error + 'b) \<Rightarrow> error + 'b" where
  "bindE (Inl e) f = Inl e"
| "bindE (Inr v) f = f v"

text \<open>A \<^verbatim>\<open>for\<close> loop whose body may raise: the first error ends the loop.\<close>

fun foldE :: "('a \<Rightarrow> 's \<Rightarrow> error + 's) \<Rightarrow> 'a list \<Rightarrow> 's \<Rightarrow> error + 's" where
  "foldE f [] s = Inr s"
| "foldE f (a # as) s = (case f a s of Inl e \<Rightarrow> Inl e | Inr s' \<Rightarrow> foldE f as s')"

text \<open>An array read \<^verbatim>\<open>xs[i]\<close> with a non-negative index.\<close>

definition rd :: "'a list \<Rightarrow> nat \<Rightarrow> error + 'a" where
  "rd xs i = (if i < length xs then Inr (xs ! i) else Inl IndexError)"

text \<open>
  The coefficient array \<open>x\<close> keeps the element type it is created with:
  \<^verbatim>\<open>np.zeros(n)\<close> is a float array, \<^verbatim>\<open>np.array(x0, copy=True)\<close> has the element type of
  \<open>x0\<close>, an integer one for an \<open>x0\<close> of integers. A read \<^verbatim>\<open>x[j]\<close> in float arithmetic
  yields the element as a float; a store \<^verbatim>\<open>x[j] = v\<close> of a float into an integer array
  keeps the integral part of \<open>v\<close>, rounding toward zero.
\<close>

datatype ndarray = IntArray "int list" | FloatArray "real list"

fun nd_values :: "ndarray \<Rightarrow> real list" where
  "nd_values (IntArray xs) = map real_of_int xs"
| "nd_values (FloatArray xs) = xs"

definition trunc :: "real \<Rightarrow> int" where
  "trunc v = (if 0 \<le> v then \<lfloor>v\<rfloor> else \<lceil>v\<rceil>)"

fun nd_set :: "ndarray \<Rightarrow> nat \<Rightarrow> real \<Rightarrow> ndarray" where
  "nd_set (IntArray xs) j v = IntArray (xs[j := trunc v])"
| "nd_set (FloatArray xs) j v = FloatArray (xs[j := v])"

fun is_float :: "ndarray \<Rightarrow> bool" where
  "is_float (IntArray xs) = False"
| "is_float (FloatArray xs) = True"

text \<open>The three parallel arrays of a compressed sparse matrix (CSR or CSC).\<close>

record sparse_arrays =
  sp_data :: "real list"
  sp_indices :: "nat list"
  sp_indptr :: "nat list"

text \<open>The fields of \<^verbatim>\<open>scipy.optimize.OptimizeResult\<close> that the two engines fill in.
  \<^verbatim>\<open>minimizelp_SAGA\<close> sets \<open>x\<close>, \<open>success\<close>, \<open>nit\<close> and \<open>message\<close>;
  \<^verbatim>\<open>minimize_BCD\<close> sets \<open>x\<close>, \<open>success\<close>, \<open>nit\<close>, \<open>trace_func\<close>, \<open>trace_time\<close> and
  \<open>certificate\<close>. A field an engine does not set is \<open>None\<close>. \<open>res_x\<close> holds the values
  of the array \<open>x\<close>.\<close>

record OptimizeResult =
  res_x :: "real list"
  res_success :: bool
  res_nit :: int
  res_message :: "string option"
  res_trace_func :: "real list option"
  res_trace_time :: "real list option"
  res_certificate :: "real option option"

section \<open>Name resolution in the module\<close>

text \<open>
  The names bound at module level of \<^verbatim>\<open>randomized.py\<close>: the five imports and the three
  function definitions. A name that is assigned in no enclosing function is looked up
  here (no Python builtin is called \<^verbatim>\<open>A\<close>, \<^verbatim>\<open>partial_gradient\<close>, \<^verbatim>\<open>b\<close>, \<^verbatim>\<open>d\<close> or
  \<^verbatim>\<open>f_alpha\<close>).
\<close>

datatype pyobj = PyModule | PyFunction

definition module_globals :: "(string \<times> pyobj) list" where
  "module_globals =
     [(''datetime'', PyModule), (''np'', PyModule), (''sparse'', PyModule),
      (''optimize'', PyModule), (''njit'', PyFunction), (''utils'', PyModule),
      (''minimizelp_SAGA'', PyFunction), (''_factory_SAGA_epoch'', PyFunction),
      (''minimize_BCD'', PyFunction)]"

definition load_global :: "string \<Rightarrow> error + pyobj" where
  "load_global name =
     (case map_of module_globals name of None \<Rightarrow> Inl NameError | Some v \<Rightarrow> Inr v)"

text \<open>The attributes \<^verbatim>\<open>.data\<close>, \<^verbatim>\<open>.indices\<close>, \<^verbatim>\<open>.indptr\<close> and \<^verbatim>\<open>.shape\<close> of an object,
  as the factory reads them. Neither a module nor a function of the module has them.\<close>

fun sparse_view :: "pyobj \<Rightarrow> error + (sparse_arrays \<times> nat \<times> nat)" where
  "sparse_view PyModule = Inl AttributeError"
| "sparse_view PyFunction = Inl AttributeError"

text \<open>The names local to \<^verbatim>\<open>_factory_SAGA_epoch\<close> and to its closure
  \<^verbatim>\<open>_saga_algorithm\<close> (parameters and assigned names).\<close>

definition factory_locals :: "string list" where
  "factory_locals =
     [''f_deriv'', ''alpha'', ''beta'', ''line_search'', ''prox'', ''A_data'',
      ''A_indices'', ''A_indptr'', ''n_samples'', ''n_features'', ''_saga_algorithm'']"

definition saga_kernel_locals :: "string list" where
  "saga_kernel_locals =
     [''x'', ''memory_gradient'', ''gradient_average'', ''step_size'', ''max_iter'',
      ''tol'', ''trace'', ''trace_x'', ''cert'', ''it'', ''trace_idx'', ''sample_indices'',
      ''i'', ''p'', ''j'', ''j_idx'', ''grad_i'', ''old_grad'', ''delta'', ''incr'', ''tmp'']"

text \<open>Whether a name read inside \<^verbatim>\<open>_saga_algorithm\<close> is bound in the closure, in the
  factory or in the module.\<close>

definition bound_in_saga_kernel :: "string \<Rightarrow> bool" where
  "bound_in_saga_kernel name =
     (name \<in> set saga_kernel_locals \<or> name \<in> set factory_locals
      \<or> name \<in> set (map fst module_globals))"

section \<open>The SAGA engine\<close>

subsection \<open>The proximal operators of the factory\<close>

text \<open>
  For \<^verbatim>\<open>beta > 0\<close> the factory defines
  \<^verbatim>\<open>def prox(x, step_size): np.fmax(x - beta * step_size, 0) - np.fmax(- x - beta * step_size, 0)\<close>:
  the expression is evaluated and dropped, the body has no \<^verbatim>\<open>return\<close>.
  For \<^verbatim>\<open>beta == 0\<close> it defines \<^verbatim>\<open>def prox(x, step_size): return x\<close>.
\<close>

definition prox_l1 :: "real \<Rightarrow> real \<Rightarrow> real \<Rightarrow> pyval" where
  "prox_l1 beta x step_size =
     (let dropped = max (x - beta * step_size) 0 - max (- x - beta * step_size) 0
      in PyNone)"

definition prox_identity :: "real \<Rightarrow> real \<Rightarrow> pyval" where
  "prox_identity x step_size = PyFloat x"

text \<open>The \<^verbatim>\<open>if beta > 0 / elif beta == 0 / else raise ValueError\<close> of the factory.\<close>

definition prox :: "real \<Rightarrow> error + (real \<Rightarrow> real \<Rightarrow> pyval)" where
  "prox beta =
     (if beta > 0 then Inr (prox_l1 beta)
      else if beta = 0 then Inr prox_identity
      else Inl ValueError)"

text \<open>The soft-threshold value in the words of the specification.\<close>

definition spec_soft_threshold :: "real \<Rightarrow> real \<Rightarrow> real \<Rightarrow> real" where
  "spec_soft_threshold beta v gamma = max (v - beta * gamma) 0 - max (- v - beta * gamma) 0"

subsection \<open>The epoch factory\<close>

text \<open>What the closure \<^verbatim>\<open>_saga_algorithm\<close> captures. The factory \<^verbatim>\<open>_factory_SAGA_epoch\<close>
  is \<open>factory_SAGA_epoch\<close> here (a name cannot start with an underscore).\<close>

record saga_kernel =
  sk_prox :: "real \<Rightarrow> real \<Rightarrow> pyval"
  sk_A :: sparse_arrays
  sk_n_samples :: nat
  sk_n_features :: nat

definition factory_SAGA_epoch :: "(real \<Rightarrow> real \<Rightarrow> real) \<Rightarrow> real \<Rightarrow> real \<Rightarrow> error + saga_kernel" where
  "factory_SAGA_epoch f_deriv alpha beta =
     bindE (prox beta) (\<lambda>px.
     bindE (load_global ''A'') (\<lambda>A.
     bindE (sparse_view A) (\<lambda>(arrs, n_samples, n_features).
       Inr \<lparr>sk_prox = px, sk_A = arrs, sk_n_samples = n_samples,
            sk_n_features = n_features\<rparr>)))"

text \<open>
  Binding the arguments of a call to the parameters of a function without defaults or
  starred parameters: a call that supplies another number of positional arguments
  raises \<^verbatim>\<open>TypeError\<close> before the body is entered.
\<close>

definition bind_arguments :: "nat \<Rightarrow> nat \<Rightarrow> error + unit" where
  "bind_arguments declared supplied = (if supplied = declared then Inr () else Inl TypeError)"

text \<open>\<^verbatim>\<open>_saga_algorithm\<close> declares the eight parameters
  \<^verbatim>\<open>x, memory_gradient, gradient_average, step_size, max_iter, tol, trace, trace_x\<close>.\<close>

definition saga_kernel_arity :: nat where
  "saga_kernel_arity = 8"

text \<open>
  The call \<^verbatim>\<open>epoch_iteration(x, idx, memory_gradient, gradient_average, step_size)\<close> of the
  driver supplies five arguments. The body of \<^verbatim>\<open>_saga_algorithm\<close> is the parameter
  \<open>body\<close>: it maps the closure and the arrays to the updated \<open>x\<close>, \<open>memory_gradient\<close>
  and \<open>gradient_average\<close>, and the driver is modelled for every such body.
\<close>

type_synonym saga_body =
  "saga_kernel \<Rightarrow> real list \<Rightarrow> nat list \<Rightarrow> real list \<Rightarrow> real list \<Rightarrow> real list
     \<Rightarrow> error + (real list \<times> real list \<times> real list)"

definition epoch_iteration ::
  "saga_body \<Rightarrow> saga_kernel \<Rightarrow> real list \<Rightarrow> nat list \<Rightarrow> real list \<Rightarrow> real list \<Rightarrow> real list
     \<Rightarrow> error + (real list \<times> real list \<times> real list)" where
  "epoch_iteration body k x idx memory_gradient gradient_average step_size =
     bindE (bind_arguments saga_kernel_arity 5)
       (\<lambda>_. body k x idx memory_gradient gradient_average step_size)"

subsection \<open>The driver\<close>

text \<open>
  The global state of \<^verbatim>\<open>np.random\<close> is a value of type \<open>'r\<close>;
  \<^verbatim>\<open>np.random.shuffle\<close> is the parameter \<open>shuffle\<close>, which maps that state and an index
  array to the shuffled array and the next state. A callback may raise or change \<open>x\<close>
  in place.

  The loop \<^verbatim>\<open>for nit in range(max_iter)\<close> runs over the list of the remaining values of
  \<open>nit\<close>; the state holds \<open>x\<close>, \<open>idx\<close>, \<open>memory_gradient\<close>, \<open>gradient_average\<close>, the
  random state and the last value bound to \<open>nit\<close>. It yields \<open>x\<close>, \<open>success\<close>, \<open>nit\<close>
  and the random state.
\<close>

fun saga_loop ::
  "('r \<Rightarrow> nat list \<Rightarrow> nat list \<times> 'r)
     \<Rightarrow> (real list \<Rightarrow> nat list \<Rightarrow> real list \<Rightarrow> real list \<Rightarrow> error + (real list \<times> real list \<times> real list))
     \<Rightarrow> (real list \<Rightarrow> error + real list) option \<Rightarrow> real \<Rightarrow> nat list
     \<Rightarrow> real list \<times> nat list \<times> real list \<times> real list \<times> 'r \<times> int
     \<Rightarrow> error + (real list \<times> bool \<times> int \<times> 'r)" where
  "saga_loop shuffle call callback tol [] (x, idx, mg, ga, rng, nit) = Inr (x, False, nit, rng)"
| "saga_loop shuffle call callback tol (n # ns) (x, idx, mg, ga, rng, nit) =
     (let x_old = x; shuffled = shuffle rng idx in
      case call x (fst shuffled) mg ga of
        Inl e \<Rightarrow> Inl e
      | Inr (x1, mg1, ga1) \<Rightarrow>
          (case (case callback of None \<Rightarrow> Inr x1 | Some cb \<Rightarrow> cb x1) of
             Inl e \<Rightarrow> Inl e
           | Inr x2 \<Rightarrow>
               if sum_list (map2 (\<lambda>a b. \<bar>a - b\<bar>) x2 x_old) < tol
               then Inr (x2, True, int n, snd shuffled)
               else saga_loop shuffle call callback tol ns
                      (x2, fst shuffled, mg1, ga1, snd shuffled, int n)))"

definition minimizelp_SAGA ::
  "('r \<Rightarrow> nat list \<Rightarrow> nat list \<times> 'r) \<Rightarrow> saga_body
     \<Rightarrow> (real \<Rightarrow> real \<Rightarrow> real) \<Rightarrow> nat \<Rightarrow> real list \<Rightarrow> real \<Rightarrow> real \<Rightarrow> real option \<Rightarrow> int \<Rightarrow> real
     \<Rightarrow> (real list \<Rightarrow> error + real list) option \<Rightarrow> 'r
     \<Rightarrow> error + (OptimizeResult \<times> 'r)" where
  "minimizelp_SAGA shuffle body f_deriv n_samples x0 alpha beta step_size max_iter tol
       callback rng =
     (let x = x0; n_features = length x0 in
      case step_size of
        None \<Rightarrow> Inl ValueError
      | Some s \<Rightarrow>
          bindE (factory_SAGA_epoch f_deriv alpha beta) (\<lambda>k.
            let memory_gradient = replicate n_samples 0;
                gradient_average = replicate n_features 0;
                idx = [0..<n_samples]
            in bindE (saga_loop shuffle
                        (\<lambda>x idx mg ga. epoch_iteration body k x idx mg ga [s])
                        callback tol [0..<nat max_iter]
                        (x, idx, memory_gradient, gradient_average, rng, 0))
                 (\<lambda>(x, success, nit, rng').
                    Inr (\<lparr>res_x = x, res_success = success, res_nit = nit,
                           res_message = Some [], res_trace_func = None,
                           res_trace_time = None, res_certificate = None\<rparr>, rng'))))"

section \<open>The BCD engine\<close>

subsection \<open>The design matrix and its compressed views\<close>

text \<open>
  \<^verbatim>\<open>f.A\<close> is a matrix with a shape, a product \<^verbatim>\<open>f.A.dot(v)\<close> and a dense form
  \<^verbatim>\<open>f.A.A\<close>; the entry in row \<open>i\<close> and column \<open>j\<close> is \<open>m_elem M i j\<close>.
\<close>

record matrix =
  m_nrows :: nat
  m_ncols :: nat
  m_elem :: "nat \<Rightarrow> nat \<Rightarrow> real"

text \<open>\<^verbatim>\<open>f.A.dot(xk)\<close>: the product with a vector of \<open>m_ncols\<close> entries; another length is
  a dimension mismatch.\<close>

definition dot :: "matrix \<Rightarrow> real list \<Rightarrow> error + real list" where
  "dot M v =
     (if length v \<noteq> m_ncols M then Inl ValueError
      else Inr (map (\<lambda>i. sum_list (map (\<lambda>j. m_elem M i j * v ! j) [0..<m_ncols M]))
                  [0..<m_nrows M]))"

text \<open>
  \<^verbatim>\<open>sparse.csr_matrix(f.A.A)\<close> and \<^verbatim>\<open>sparse.csc_matrix(f.A.A)\<close>: the nonzero entries of
  the dense array, row by row with ascending column index (CSR), column by column with
  ascending row index (CSC); \<open>indptr\<close> holds the offset at which each row (column)
  starts, and the total count last.
\<close>

definition row_nz :: "matrix \<Rightarrow> nat \<Rightarrow> nat list" where
  "row_nz M i = filter (\<lambda>j. m_elem M i j \<noteq> 0) [0..<m_ncols M]"

definition col_nz :: "matrix \<Rightarrow> nat \<Rightarrow> nat list" where
  "col_nz M j = filter (\<lambda>i. m_elem M i j \<noteq> 0) [0..<m_nrows M]"

definition csr_matrix :: "matrix \<Rightarrow> sparse_arrays" where
  "csr_matrix M =
     \<lparr>sp_data = concat (map (\<lambda>i. map (\<lambda>j. m_elem M i j) (row_nz M i)) [0..<m_nrows M]),
      sp_indices = concat (map (row_nz M) [0..<m_nrows M]),
      sp_indptr = map (\<lambda>i. length (concat (map (row_nz M) [0..<i]))) [0..<m_nrows M + 1]\<rparr>"

definition csc_matrix :: "matrix \<Rightarrow> sparse_arrays" where
  "csc_matrix M =
     \<lparr>sp_data = concat (map (\<lambda>j. map (\<lambda>i. m_elem M i j) (col_nz M j)) [0..<m_ncols M]),
      sp_indices = concat (map (col_nz M) [0..<m_ncols M]),
      sp_indptr = map (\<lambda>j. length (concat (map (col_nz M) [0..<j]))) [0..<m_ncols M + 1]\<rparr>"

subsection \<open>The loss and the penalty\<close>

text \<open>
  The attributes and methods of the loss object \<^verbatim>\<open>f\<close> that \<^verbatim>\<open>minimize_BCD\<close> uses:
  \<^verbatim>\<open>f.n_features\<close>, \<^verbatim>\<open>f.A\<close>, \<^verbatim>\<open>f.b\<close>, \<^verbatim>\<open>f.alpha\<close>, \<^verbatim>\<open>f.lipschitz_constant('features')\<close>,
  \<^verbatim>\<open>f.partial_gradient_factory()\<close> and the objective \<^verbatim>\<open>f(x)\<close>; of the penalty \<^verbatim>\<open>g\<close>:
  \<^verbatim>\<open>g.prox_factory()\<close> and \<^verbatim>\<open>g(x)\<close>. Both objects are the caller's.
\<close>

record loss =
  l_n_features :: nat
  l_A :: matrix
  l_b :: "real list"
  l_alpha :: real
  l_lipschitz_constant :: real
  l_partial_gradient :: "real \<Rightarrow> real \<Rightarrow> real"
  l_value :: "real list \<Rightarrow> real"

record penalty =
  p_prox :: "real \<Rightarrow> real \<Rightarrow> real"
  p_value :: "real list \<Rightarrow> real"

text \<open>Modelled from the spec: \<^verbatim>\<open>utils.ZeroLoss\<close>, the default penalty, is defined in
  \<^verbatim>\<open>copt/utils.py\<close>, which is not among the sources. The specification gives the zero
  penalty the identity as proximal operator, \<open>prox(v, \<gamma>) = v\<close>; its value is zero.\<close>

definition ZeroLoss :: penalty where
  "ZeroLoss = \<lparr>p_prox = (\<lambda>v gamma. v), p_value = (\<lambda>x. 0)\<rparr>"

subsection \<open>The kernel\<close>

text \<open>What the closure \<^verbatim>\<open>_bcd_algorithm\<close> captures from \<^verbatim>\<open>minimize_BCD\<close>.\<close>

record bcd_env =
  e_n_samples :: nat
  e_n_features :: nat
  e_max_iter :: int
  e_partial_gradient :: "real \<Rightarrow> real \<Rightarrow> real"
  e_prox :: "real \<Rightarrow> real \<Rightarrow> real"
  e_step_size :: real
  e_f_alpha :: real

text \<open>
  One pass of the first inner loop,
  \<^verbatim>\<open>grad_j += partial_gradient(Ax[i_idx], b[i_idx]) * A_csc_data[i_indptr] / n_samples\<close>.
\<close>

definition grad_step ::
  "bcd_env \<Rightarrow> sparse_arrays \<Rightarrow> real list \<Rightarrow> real list \<Rightarrow> nat \<Rightarrow> real \<Rightarrow> error + real" where
  "grad_step env csc Ax b i_indptr grad_j =
     bindE (rd (sp_indices csc) i_indptr) (\<lambda>i_idx.
     bindE (rd Ax i_idx) (\<lambda>p.
     bindE (rd b i_idx) (\<lambda>bi.
     bindE (rd (sp_data csc) i_indptr) (\<lambda>a.
       if e_n_samples env = 0 then Inl ZeroDivisionError
       else Inr (grad_j + e_partial_gradient env p bi * a / real (e_n_samples env))))))"

text \<open>One pass of the second inner loop,
  \<^verbatim>\<open>Ax[i_idx] += A_csc_data[i_indptr] * (x_new - x[j])\<close>.\<close>

definition Ax_step ::
  "sparse_arrays \<Rightarrow> ndarray \<Rightarrow> nat \<Rightarrow> real \<Rightarrow> nat \<Rightarrow> real list \<Rightarrow> error + real list" where
  "Ax_step csc x j x_new i_indptr Ax =
     bindE (rd (sp_indices csc) i_indptr) (\<lambda>i_idx.
     bindE (rd Ax i_idx) (\<lambda>v.
     bindE (rd (sp_data csc) i_indptr) (\<lambda>a.
     bindE (rd (nd_values x) j) (\<lambda>xj.
       Inr (Ax[i_idx := v + a * (x_new - xj)])))))"

text \<open>
  The update of coordinate \<open>j\<close> (the body of \<^verbatim>\<open>for j in feature_indices\<close> up to
  \<^verbatim>\<open>x[j] = x_new\<close>). Both inner loops run over
  \<^verbatim>\<open>range(A_csc_indptr[j], A_csc_indptr[j+1])\<close>; the offsets are not written in between.
  \<open>Ax\<close> is moved by \<open>x_new - x[j]\<close> with the float \<open>x_new\<close>; the store \<^verbatim>\<open>x[j] = x_new\<close>
  then converts \<open>x_new\<close> to the element type of \<open>x\<close>.
\<close>

definition coordinate_update ::
  "bcd_env \<Rightarrow> sparse_arrays \<Rightarrow> real list \<Rightarrow> nat \<Rightarrow> ndarray \<times> real list
     \<Rightarrow> error + (ndarray \<times> real list)" where
  "coordinate_update env csc b j st =
     (let x = fst st; Ax = snd st in
      bindE (rd (sp_indptr csc) j) (\<lambda>lo.
      bindE (rd (sp_indptr csc) (j + 1)) (\<lambda>hi.
      bindE (foldE (grad_step env csc Ax b) [lo..<hi] 0) (\<lambda>grad_j.
      bindE (rd (nd_values x) j) (\<lambda>xj.
        let x_new = e_prox env (xj - e_step_size env * (grad_j + e_f_alpha env * xj))
                      (e_step_size env)
        in bindE (foldE (Ax_step csc x j x_new) [lo..<hi] Ax) (\<lambda>Ax'.
             Inr (nd_set x j x_new, Ax')))))))"

text \<open>The recomputation of \<open>Ax\<close> from the CSR arrays (the body of \<^verbatim>\<open>if j == 0\<close>).\<close>

definition row_step :: "sparse_arrays \<Rightarrow> ndarray \<Rightarrow> nat \<Rightarrow> real \<Rightarrow> error + real" where
  "row_step csr x jp p =
     bindE (rd (sp_indices csr) jp) (\<lambda>j_idx.
     bindE (rd (nd_values x) j_idx) (\<lambda>xv.
     bindE (rd (sp_data csr) jp) (\<lambda>a.
       Inr (p + xv * a))))"

definition recompute_row ::
  "sparse_arrays \<Rightarrow> ndarray \<Rightarrow> nat \<Rightarrow> real list \<Rightarrow> error + real list" where
  "recompute_row csr x i Ax =
     bindE (rd (sp_indptr csr) i) (\<lambda>lo.
     bindE (rd (sp_indptr csr) (i + 1)) (\<lambda>hi.
     bindE (foldE (row_step csr x) [lo..<hi] 0) (\<lambda>p.
       if i < length Ax then Inr (Ax[i := p]) else Inl IndexError)))"

definition recompute_Ax ::
  "bcd_env \<Rightarrow> sparse_arrays \<Rightarrow> ndarray \<times> real list \<Rightarrow> error + (ndarray \<times> real list)" where
  "recompute_Ax env csr st =
     bindE (foldE (recompute_row csr (fst st)) [0..<e_n_samples env] (snd st))
       (\<lambda>Ax'. Inr (fst st, Ax'))"

text \<open>The whole body of \<^verbatim>\<open>for j in feature_indices\<close>: the update of coordinate \<open>j\<close>, then
  the recomputation under \<^verbatim>\<open>if j == 0\<close>.\<close>

definition feature_step ::
  "bcd_env \<Rightarrow> sparse_arrays \<Rightarrow> sparse_arrays \<Rightarrow> real list \<Rightarrow> nat \<Rightarrow> ndarray \<times> real list
     \<Rightarrow> error + (ndarray \<times> real list)" where
  "feature_step env csr csc b j st =
     bindE (coordinate_update env csc b j st) (\<lambda>st'.
       if j = 0 then recompute_Ax env csr st' else Inr st')"

text \<open>
  The state of the outer loop: \<open>x\<close>, \<open>Ax\<close>, the array \<open>feature_indices\<close> (shuffled in
  place, so each epoch shuffles the order the previous one left), the state of
  \<^verbatim>\<open>np.random\<close> and the last value bound to \<open>it\<close>.
\<close>

record 'r bcd_state =
  st_x :: ndarray
  st_Ax :: "real list"
  st_feature_indices :: "nat list"
  st_rng :: 'r
  st_it :: int

text \<open>One epoch: the body of \<^verbatim>\<open>for it in range(1, max_iter)\<close>.\<close>

definition bcd_epoch ::
  "('r \<Rightarrow> nat list \<Rightarrow> nat list \<times> 'r) \<Rightarrow> bcd_env \<Rightarrow> sparse_arrays \<Rightarrow> sparse_arrays \<Rightarrow> real list
     \<Rightarrow> nat \<Rightarrow> 'r bcd_state \<Rightarrow> error + 'r bcd_state" where
  "bcd_epoch shuffle env csr csc b it s =
     (let shuffled = shuffle (st_rng s) (st_feature_indices s) in
      bindE (foldE (feature_step env csr csc b) (fst shuffled) (st_x s, st_Ax s))
        (\<lambda>st'. Inr \<lparr>st_x = fst st', st_Ax = snd st', st_feature_indices = fst shuffled,
                    st_rng = snd shuffled, st_it = int it\<rparr>))"

text \<open>
  \<^verbatim>\<open>_bcd_algorithm\<close> (\<open>bcd_algorithm\<close> here): it returns \<^verbatim>\<open>(it, None)\<close> and leaves \<open>x\<close> and \<open>Ax\<close> changed in place;
  \<open>trace_x\<close> and \<open>tol\<close> are parameters that the body never reads or writes. The result
  holds \<open>it\<close>, the certificate, \<open>x\<close>, \<open>Ax\<close>, \<open>trace_x\<close> and the random state.
\<close>

definition bcd_algorithm ::
  "('r \<Rightarrow> nat list \<Rightarrow> nat list \<times> 'r) \<Rightarrow> bcd_env \<Rightarrow> ndarray \<Rightarrow> real list \<Rightarrow> sparse_arrays
     \<Rightarrow> sparse_arrays \<Rightarrow> real list \<Rightarrow> real list list \<Rightarrow> real \<Rightarrow> 'r
     \<Rightarrow> error + (int \<times> real option \<times> ndarray \<times> real list \<times> real list list \<times> 'r)" where
  "bcd_algorithm shuffle env x Ax csr csc b trace_x tol rng =
     bindE (foldE (bcd_epoch shuffle env csr csc b) [1..<nat (e_max_iter env)]
              \<lparr>st_x = x, st_Ax = Ax, st_feature_indices = [0..<e_n_features env],
               st_rng = rng, st_it = 0\<rparr>)
       (\<lambda>s. Inr (st_it s, None, st_x s, st_Ax s, trace_x, st_rng s))"

subsection \<open>The driver\<close>

text \<open>\<^verbatim>\<open>np.linspace(a, b, n)\<close>: \<open>n\<close> evenly spaced values from \<open>a\<close> to \<open>b\<close>, both included.\<close>

definition linspace :: "real \<Rightarrow> real \<Rightarrow> nat \<Rightarrow> real list" where
  "linspace a b n =
     (if n = 1 then [a] else map (\<lambda>k. a + real k * ((b - a) / real (n - 1))) [0..<n])"

text \<open>The two readings of the wall clock that reach the result: the seconds of
  \<^verbatim>\<open>start - datetime.now()\<close> and the seconds \<open>delta\<close> that the kernel ran.\<close>

record clock =
  c_start_offset :: real
  c_delta :: real

text \<open>The loop \<^verbatim>\<open>for i in range(n_iter): trace_func.append(f(trace_x[i]) + g(trace_x[i]))\<close>.\<close>

definition trace_step ::
  "loss \<Rightarrow> penalty \<Rightarrow> real list list \<Rightarrow> nat \<Rightarrow> real list \<Rightarrow> error + real list" where
  "trace_step f g trace_x i trace_func =
     bindE (rd trace_x i) (\<lambda>row. Inr (trace_func @ [l_value f row + p_value g row]))"

text \<open>
  \<^verbatim>\<open>minimize_BCD(f, g, x0, step_size, max_iter, trace, verbose, tol)\<close>. A missing \<open>x0\<close>
  becomes the float array \<^verbatim>\<open>np.zeros(f.n_features)\<close>, a given one is copied with its
  element type. A missing step
  size becomes \<^verbatim>\<open>1. / f.lipschitz_constant('features')\<close>, where a zero constant is a
  division by zero. \<^verbatim>\<open>np.zeros((max_iter, n_features))\<close> refuses a negative dimension.
  \<open>verbose\<close> only prints.
\<close>

definition minimize_BCD ::
  "('r \<Rightarrow> nat list \<Rightarrow> nat list \<times> 'r) \<Rightarrow> clock \<Rightarrow> loss \<Rightarrow> penalty option \<Rightarrow> ndarray option
     \<Rightarrow> real option \<Rightarrow> int \<Rightarrow> bool \<Rightarrow> bool \<Rightarrow> real \<Rightarrow> 'r \<Rightarrow> error + (OptimizeResult \<times> 'r)" where
  "minimize_BCD shuffle clk f g x0 step_size max_iter trace verbose tol rng =
     (let xk = (case x0 of None \<Rightarrow> FloatArray (replicate (l_n_features f) 0) | Some v \<Rightarrow> v);
          g = (case g of None \<Rightarrow> ZeroLoss | Some g' \<Rightarrow> g')
      in
      bindE (case step_size of
               None \<Rightarrow> if l_lipschitz_constant f = 0 then Inl ZeroDivisionError
                       else Inr (1 / l_lipschitz_constant f)
             | Some s \<Rightarrow> Inr s) (\<lambda>step_size.
      bindE (dot (l_A f) (nd_values xk)) (\<lambda>Ax.
        let f_alpha = l_alpha f;
            n_samples = m_nrows (l_A f);
            n_features = m_ncols (l_A f);
            success = False;
            partial_gradient = l_partial_gradient f;
            prox = p_prox g
        in
        bindE (if trace
               then if max_iter < 0 then Inl ValueError
                    else Inr (replicate (nat max_iter) (replicate n_features 0))
               else Inr []) (\<lambda>trace_x.
          let env = \<lparr>e_n_samples = n_samples, e_n_features = n_features,
                      e_max_iter = max_iter, e_partial_gradient = partial_gradient,
                      e_prox = prox, e_step_size = step_size, e_f_alpha = f_alpha\<rparr>;
              X_csc = csc_matrix (l_A f);
              X_csr = csr_matrix (l_A f)
          in
          bindE (bcd_algorithm shuffle env xk Ax X_csr X_csc (l_b f) trace_x tol rng)
            (\<lambda>(n_iter, certificate, xk', Ax', trace_x', rng').
          bindE (if trace then foldE (trace_step f g trace_x') [0..<nat n_iter] []
                 else Inr []) (\<lambda>trace_func.
            Inr (\<lparr>res_x = nd_values xk', res_success = success, res_nit = n_iter,
                   res_message = None, res_trace_func = Some trace_func,
                   res_trace_time =
                     Some (if trace then linspace 0 (c_delta clk) (nat n_iter)
                           else [c_start_offset clk]),
                   res_certificate = Some certificate\<rparr>, rng')))))))"

subsection \<open>States of a solve, and the pass as the specification words it\<close>

text \<open>
  The pairs \<open>(x, Ax)\<close> that a solve of \<^verbatim>\<open>minimize_BCD\<close> on the loss \<open>f\<close> can be in at a
  point between two statements of the feature loop: the pair the driver hands to the
  kernel, and what a coordinate update or a recomputation makes of such a pair.
\<close>

inductive bcd_reachable :: "loss \<Rightarrow> bcd_env \<Rightarrow> ndarray \<times> real list \<Rightarrow> bool"
  for f :: loss and env :: bcd_env where
  start: "dot (l_A f) (nd_values xk) = Inr Ax \<Longrightarrow> bcd_reachable f env (xk, Ax)"
| update: "bcd_reachable f env st
     \<Longrightarrow> coordinate_update env (csc_matrix (l_A f)) (l_b f) j st = Inr st'
     \<Longrightarrow> bcd_reachable f env st'"
| resync: "bcd_reachable f env st
     \<Longrightarrow> recompute_Ax env (csr_matrix (l_A f)) st = Inr st'
     \<Longrightarrow> bcd_reachable f env st'"

text \<open>The invariant of the cached prediction: \<open>Ax[i] = \<Sum>\<^sub>j A[i,j] \<cdot> x[j]\<close> for every
  sample \<open>i\<close>.\<close>

definition Ax_invariant :: "matrix \<Rightarrow> ndarray \<times> real list \<Rightarrow> bool" where
  "Ax_invariant M st =
     (length (nd_values (fst st)) = m_ncols M \<and> length (snd st) = m_nrows M \<and>
      list_all (\<lambda>i. snd st ! i
                  = sum_list (map (\<lambda>j. m_elem M i j * nd_values (fst st) ! j) [0..<m_ncols M]))
        [0..<m_nrows M])"

text \<open>
  The pass over the features in the words of the specification: the recomputation of
  \<open>Ax\<close> follows the coordinate update of the first index of the shuffled order, and
  of no other.
\<close>

definition spec_pass ::
  "bcd_env \<Rightarrow> sparse_arrays \<Rightarrow> sparse_arrays \<Rightarrow> real list \<Rightarrow> nat list \<Rightarrow> ndarray \<times> real list
     \<Rightarrow> error + (ndarray \<times> real list)" where
  "spec_pass env csr csc b order st =
     (case order of
        [] \<Rightarrow> Inr st
      | j # rest \<Rightarrow>
          bindE (coordinate_update env csc b j st) (\<lambda>st1.
          bindE (recompute_Ax env csr st1) (\<lambda>st2.
            foldE (coordinate_update env csc b) rest st2)))"

subsection \<open>Auxiliary definitions\<close>

text \<open>The sum that the recomputation stores in \<open>Ax[i]\<close>: the products over the stored
  entries of row \<open>i\<close> of the CSR arrays.\<close>

definition row_sum :: "sparse_arrays \<Rightarrow> ndarray \<Rightarrow> nat \<Rightarrow> real" where
  "row_sum csr x i =
     sum_list (map (\<lambda>k. nd_values x ! (sp_indices csr ! k) * sp_data csr ! k)
                 [sp_indptr csr ! i..<sp_indptr csr ! (i + 1)])"

text \<open>A shuffle that also counts its calls: the random state is paired with the number
  of calls of \<^verbatim>\<open>np.random.shuffle\<close> made so far. The kernel shuffles once per epoch.\<close>

definition counted :: "('r \<Rightarrow> nat list \<Rightarrow> nat list \<times> 'r) \<Rightarrow> 'r \<times> nat \<Rightarrow> nat list \<Rightarrow> nat list \<times> ('r \<times> nat)" where
  "counted shuffle rc xs =
     (fst (shuffle (fst rc) xs), (snd (shuffle (fst rc) xs), Suc (snd rc)))"

subsection \<open>Concrete problems\<close>

text \<open>
  A least-squares problem on the matrix with rows \<open>(1, 2)\<close> and \<open>(0, 3)\<close> and labels
  \<open>(1, 1)\<close>: the loss derivative is \<open>p - b\<close>, the Lipschitz constant is given as \<open>4\<close>,
  the objective is half the sum of the squared residuals. The shuffle reverses the index
  array and counts up the random state.
\<close>

definition ex_M :: matrix where
  "ex_M = \<lparr>m_nrows = 2, m_ncols = 2, m_elem = (\<lambda>i j. [[1, 2], [0, 3]] ! i ! j)\<rparr>"

definition ex_f :: loss where
  "ex_f = \<lparr>l_n_features = 2, l_A = ex_M, l_b = [1, 1], l_alpha = 0,
           l_lipschitz_constant = 4, l_partial_gradient = (\<lambda>p b. p - b),
           l_value = (\<lambda>x. ((x ! 0 + 2 * x ! 1 - 1)\<^sup>2 + (3 * x ! 1 - 1)\<^sup>2) / 2)\<rparr>"

definition ex_shuffle :: "nat \<Rightarrow> nat list \<Rightarrow> nat list \<times> nat" where
  "ex_shuffle r xs = (rev xs, Suc r)"

definition ex_clock :: clock where
  "ex_clock = \<lparr>c_start_offset = 0, c_delta = 1\<rparr>"

text \<open>The closure environment that the driver builds for this problem with the default
  step size \<open>1 / 4\<close> and \<open>max_iter = 2\<close>.\<close>

definition ex_env :: bcd_env where
  "ex_env = \<lparr>e_n_samples = 2, e_n_features = 2, e_max_iter = 2,
             e_partial_gradient = (\<lambda>p b. p - b), e_prox = (\<lambda>v gamma. v),
             e_step_size = 1 / 4, e_f_alpha = 0\<rparr>"

text \<open>A kernel call on the one-sample matrix \<open>(1, 1)\<close> with step size \<open>1\<close>, to be
  started on a cached prediction that is not the product \<open>A \<cdot> x\<close>, as after drift.\<close>

definition drift_M :: matrix where
  "drift_M = \<lparr>m_nrows = 1, m_ncols = 2, m_elem = (\<lambda>i j. 1)\<rparr>"

definition drift_env :: bcd_env where
  "drift_env = \<lparr>e_n_samples = 1, e_n_features = 2, e_max_iter = 2,
             e_partial_gradient = (\<lambda>p b. p - b), e_prox = (\<lambda>v gamma. v),
             e_step_size = 1, e_f_alpha = 0\<rparr>"

section \<open>Properties\<close>

subsection \<open>Results of the monadic combinators\<close>

lemma bindE_Inr_iff: "bindE m f = Inr y \<longleftrightarrow> (\<exists>v. m = Inr v \<and> f v = Inr y)"
  by (cases m) simp_all

lemma rd_Inr_iff: "rd xs i = Inr v \<longleftrightarrow> i < length xs \<and> v = xs ! i"
  by (auto simp: rd_def)

lemma foldE_append: "foldE f (xs @ ys) s = bindE (foldE f xs s) (foldE f ys)"
  by (induction xs arbitrary: s) (simp_all split: sum.splits)

subsection \<open>The SAGA factory raises\<close>

lemma load_global_A: "load_global ''A'' = Inl NameError"
  by (simp add: load_global_def module_globals_def)

lemma factory_SAGA_epoch_raises:
  "factory_SAGA_epoch f_deriv alpha beta = Inl (if beta < 0 then ValueError else NameError)"
  by (simp add: factory_SAGA_epoch_def prox_def load_global_A)

lemma minimizelp_SAGA_raises:
  "minimizelp_SAGA shuffle body f_deriv n_samples x0 alpha beta step_size max_iter tol
       callback rng
     = Inl (case step_size of None \<Rightarrow> ValueError
            | Some s \<Rightarrow> if beta < 0 then ValueError else NameError)"
  by (cases step_size) (simp_all add: minimizelp_SAGA_def factory_SAGA_epoch_raises)

subsection \<open>The inner loops of the BCD kernel\<close>

lemma foldE_Ax_step:
  "foldE (Ax_step csc x j x_new) ks Ax = Inr Ax' \<Longrightarrow>
     length Ax' = length Ax \<and>
     (\<forall>i<length Ax. Ax' ! i = Ax ! i
        + sum_list (map (\<lambda>k. if sp_indices csc ! k = i then sp_data csc ! k else 0) ks)
          * (x_new - nd_values x ! j))"
proof (induction ks arbitrary: Ax)
  case Nil
  then show ?case by simp
next
  case (Cons k ks)
  from Cons.prems obtain Ax1 where
    s1: "Ax_step csc x j x_new k Ax = Inr Ax1" and
    s2: "foldE (Ax_step csc x j x_new) ks Ax1 = Inr Ax'"
    by (auto split: sum.splits)
  from s1 have Ax1: "Ax1 = Ax[sp_indices csc ! k := Ax ! (sp_indices csc ! k) + sp_data csc ! k * (x_new - nd_values x ! j)]"
    and inb: "sp_indices csc ! k < length Ax"
    by (auto simp: Ax_step_def bindE_Inr_iff rd_Inr_iff)
  from Cons.IH [OF s2] have
    len: "length Ax' = length Ax1" and
    val: "\<forall>i<length Ax1. Ax' ! i = Ax1 ! i
        + sum_list (map (\<lambda>k. if sp_indices csc ! k = i then sp_data csc ! k else 0) ks)
          * (x_new - nd_values x ! j)"
    by simp_all
  show ?case
  proof (intro conjI allI impI)
    show "length Ax' = length Ax" using len Ax1 by simp
  next
    fix i assume i: "i < length Ax"
    then have "i < length Ax1" using Ax1 by simp
    with val have "Ax' ! i = Ax1 ! i
        + sum_list (map (\<lambda>k. if sp_indices csc ! k = i then sp_data csc ! k else 0) ks)
          * (x_new - nd_values x ! j)" by simp
    moreover have "Ax1 ! i = Ax ! i + (if sp_indices csc ! k = i then sp_data csc ! k else 0) * (x_new - nd_values x ! j)"
      using i inb Ax1 by (simp add: nth_list_update)
    ultimately show "Ax' ! i = Ax ! i
        + sum_list (map (\<lambda>k. if sp_indices csc ! k = i then sp_data csc ! k else 0) (k # ks))
          * (x_new - nd_values x ! j)"
      by (simp add: algebra_simps)
  qed
qed

lemma foldE_row_step:
  "foldE (row_step csr x) ks p = Inr p' \<Longrightarrow>
     p' = p + sum_list (map (\<lambda>k. nd_values x ! (sp_indices csr ! k) * sp_data csr ! k) ks)"
proof (induction ks arbitrary: p)
  case Nil
  then show ?case by simp
next
  case (Cons k ks)
  from Cons.prems obtain p1 where
    s1: "row_step csr x k p = Inr p1" and s2: "foldE (row_step csr x) ks p1 = Inr p'"
    by (auto split: sum.splits)
  from s1 have "p1 = p + nd_values x ! (sp_indices csr ! k) * sp_data csr ! k"
    by (auto simp: row_step_def bindE_Inr_iff rd_Inr_iff)
  with Cons.IH [OF s2] show ?case by simp
qed

lemma recompute_row_Inr:
  "recompute_row csr x i Ax = Inr Ax1 \<Longrightarrow>
     i < length Ax \<and> i + 1 < length (sp_indptr csr) \<and> Ax1 = Ax[i := row_sum csr x i]"
  by (auto simp: recompute_row_def bindE_Inr_iff rd_Inr_iff row_sum_def
      dest!: foldE_row_step split: if_splits)

lemma foldE_recompute_row:
  "foldE (recompute_row csr x) is Ax = Inr Ax' \<Longrightarrow>
     length Ax' = length Ax \<and>
     (\<forall>i<length Ax. Ax' ! i = (if i \<in> set is then row_sum csr x i else Ax ! i)) \<and>
     (\<forall>i\<in>set is. i + 1 < length (sp_indptr csr))"
proof (induction "is" arbitrary: Ax)
  case Nil
  then show ?case by simp
next
  case (Cons a "is")
  from Cons.prems obtain Ax1 where
    s1: "recompute_row csr x a Ax = Inr Ax1" and
    s2: "foldE (recompute_row csr x) is Ax1 = Inr Ax'"
    by (auto split: sum.splits)
  from recompute_row_Inr [OF s1] have
    a: "a < length Ax" "a + 1 < length (sp_indptr csr)" and Ax1: "Ax1 = Ax[a := row_sum csr x a]"
    by simp_all
  from Cons.IH [OF s2] Ax1 a show ?case
    by (auto simp: nth_list_update)
qed

subsection \<open>The compressed views hold the entries of the matrix\<close>

lemma upt_split3: "i < n \<Longrightarrow> [0..<n] = [0..<i] @ i # [Suc i..<n]"
  by (metis le_add2 less_imp_add_positive upt_add_eq_append upt_conv_Cons zero_le add.commute le0 less_or_eq_imp_le upt_eq_Nil_conv)

lemma concat_segment:
  assumes "i < n"
  shows "map ((!) (concat (map F [0..<n])))
           [length (concat (map F [0..<i]))..<length (concat (map F [0..<i + 1]))] = F i"
proof -
  let ?A = "concat (map F [0..<i])"
  let ?R = "concat (map F [Suc i..<n])"
  have c: "concat (map F [0..<n]) = ?A @ F i @ ?R"
    using upt_split3 [OF assms] by simp
  have l: "length (concat (map F [0..<i + 1])) = length ?A + length (F i)"
    by simp
  show ?thesis
  proof (rule nth_equalityI)
    show "length (map ((!) (concat (map F [0..<n])))
           [length ?A..<length (concat (map F [0..<i + 1]))]) = length (F i)"
      using l by simp
  next
    fix t assume "t < length (map ((!) (concat (map F [0..<n])))
           [length ?A..<length (concat (map F [0..<i + 1]))])"
    then have t: "t < length (F i)" using l by simp
    then show "map ((!) (concat (map F [0..<n])))
           [length ?A..<length (concat (map F [0..<i + 1]))] ! t = F i ! t"
      using l c by (simp add: nth_append)
  qed
qed

lemma length_concat_map_map:
  "length (concat (map (\<lambda>i. map (g i) (F i)) xs)) = length (concat (map F xs))"
  by (induction xs) simp_all

lemma csc_indptr_nth:
  "j \<le> m_ncols M \<Longrightarrow> sp_indptr (csc_matrix M) ! j = length (concat (map (col_nz M) [0..<j]))"
  by (simp add: csc_matrix_def nth_map_upt del: upt_Suc)

lemma csr_indptr_nth:
  "i \<le> m_nrows M \<Longrightarrow> sp_indptr (csr_matrix M) ! i = length (concat (map (row_nz M) [0..<i]))"
  by (simp add: csr_matrix_def nth_map_upt del: upt_Suc)

lemma map_nth_pair:
  "map (\<lambda>k. h (I ! k) (D ! k)) ks = map (\<lambda>(a, b). h a b) (zip (map ((!) I) ks) (map ((!) D) ks))"
  by (induction ks) simp_all

lemma csc_segment:
  assumes "j < m_ncols M"
  shows "map (\<lambda>k. h (sp_indices (csc_matrix M) ! k) (sp_data (csc_matrix M) ! k))
           [sp_indptr (csc_matrix M) ! j..<sp_indptr (csc_matrix M) ! (j + 1)]
         = map (\<lambda>i. h i (m_elem M i j)) (col_nz M j)"
proof -
  let ?ks = "[sp_indptr (csc_matrix M) ! j..<sp_indptr (csc_matrix M) ! (j + 1)]"
  let ?G = "\<lambda>j. map (\<lambda>i. m_elem M i j) (col_nz M j)"
  have lo: "sp_indptr (csc_matrix M) ! j = length (concat (map (col_nz M) [0..<j]))"
    and hi: "sp_indptr (csc_matrix M) ! (j + 1) = length (concat (map (col_nz M) [0..<j + 1]))"
    using assms by (simp_all add: csc_indptr_nth del: upt_Suc)
  have I: "map ((!) (sp_indices (csc_matrix M))) ?ks = col_nz M j"
    unfolding lo hi using concat_segment [OF assms, of "col_nz M"]
    by (simp add: csc_matrix_def del: upt_Suc)
  have lo': "length (concat (map (col_nz M) [0..<j])) = length (concat (map ?G [0..<j]))"
    and hi': "length (concat (map (col_nz M) [0..<j + 1])) = length (concat (map ?G [0..<j + 1]))"
    using length_concat_map_map [of "\<lambda>j i. m_elem M i j" "col_nz M"] by simp_all
  have D: "map ((!) (sp_data (csc_matrix M))) ?ks = ?G j"
    unfolding lo hi lo' hi' using concat_segment [OF assms, of ?G]
    by (simp add: csc_matrix_def del: upt_Suc)
  show ?thesis
    unfolding map_nth_pair [of h _ _ ?ks] I D
    by (simp add: zip_map2 zip_same_conv_map comp_def)
qed

lemma csr_segment:
  assumes "i < m_nrows M"
  shows "map (\<lambda>k. h (sp_indices (csr_matrix M) ! k) (sp_data (csr_matrix M) ! k))
           [sp_indptr (csr_matrix M) ! i..<sp_indptr (csr_matrix M) ! (i + 1)]
         = map (\<lambda>j. h j (m_elem M i j)) (row_nz M i)"
proof -
  let ?ks = "[sp_indptr (csr_matrix M) ! i..<sp_indptr (csr_matrix M) ! (i + 1)]"
  let ?G = "\<lambda>i. map (\<lambda>j. m_elem M i j) (row_nz M i)"
  have lo: "sp_indptr (csr_matrix M) ! i = length (concat (map (row_nz M) [0..<i]))"
    and hi: "sp_indptr (csr_matrix M) ! (i + 1) = length (concat (map (row_nz M) [0..<i + 1]))"
    using assms by (simp_all add: csr_indptr_nth del: upt_Suc)
  have I: "map ((!) (sp_indices (csr_matrix M))) ?ks = row_nz M i"
    unfolding lo hi using concat_segment [OF assms, of "row_nz M"]
    by (simp add: csr_matrix_def del: upt_Suc)
  have lo': "length (concat (map (row_nz M) [0..<i])) = length (concat (map ?G [0..<i]))"
    and hi': "length (concat (map (row_nz M) [0..<i + 1])) = length (concat (map ?G [0..<i + 1]))"
    using length_concat_map_map [of "\<lambda>i j. m_elem M i j" "row_nz M"] by simp_all
  have D: "map ((!) (sp_data (csr_matrix M))) ?ks = ?G i"
    unfolding lo hi lo' hi' using concat_segment [OF assms, of ?G]
    by (simp add: csr_matrix_def del: upt_Suc)
  show ?thesis
    unfolding map_nth_pair [of h _ _ ?ks] I D
    by (simp add: zip_map2 zip_same_conv_map comp_def)
qed

lemma sum_list_filter_nz:
  "sum_list (map f (filter P xs)) = sum_list (map (\<lambda>x. if P x then f x else (0::real)) xs)"
  by (induction xs) simp_all

lemma csc_entry_eq:
  assumes "j < m_ncols M" "i < m_nrows M"
  shows "sum_list (map (\<lambda>k. if sp_indices (csc_matrix M) ! k = i then sp_data (csc_matrix M) ! k else 0)
           [sp_indptr (csc_matrix M) ! j..<sp_indptr (csc_matrix M) ! (j + 1)]) = m_elem M i j"
proof -
  have "sum_list (map (\<lambda>k. if sp_indices (csc_matrix M) ! k = i then sp_data (csc_matrix M) ! k else 0)
           [sp_indptr (csc_matrix M) ! j..<sp_indptr (csc_matrix M) ! (j + 1)])
      = sum_list (map (\<lambda>i'. if i' = i then m_elem M i' j else 0) (col_nz M j))"
    using csc_segment [OF assms(1), of "\<lambda>a d. if a = i then d else 0"] by simp
  also have "\<dots> = sum_list (map (\<lambda>i'. if m_elem M i' j \<noteq> 0 then (if i' = i then m_elem M i' j else 0) else 0)
                      [0..<m_nrows M])"
    by (simp add: col_nz_def sum_list_filter_nz)
  also have "\<dots> = (\<Sum>i'\<in>{0..<m_nrows M}. if i' = i then m_elem M i j else 0)"
    unfolding interv_sum_list_conv_sum_set_nat by (intro sum.cong) auto
  also have "\<dots> = m_elem M i j"
    using assms(2) by simp
  finally show ?thesis .
qed

lemma csr_row_sum_eq:
  assumes "i < m_nrows M"
  shows "row_sum (csr_matrix M) x i
       = sum_list (map (\<lambda>j. m_elem M i j * nd_values x ! j) [0..<m_ncols M])"
proof -
  have "row_sum (csr_matrix M) x i
      = sum_list (map (\<lambda>j. nd_values x ! j * m_elem M i j) (row_nz M i))"
    unfolding row_sum_def using csr_segment [OF assms, of "\<lambda>a d. nd_values x ! a * d"] by simp
  also have "\<dots> = sum_list (map (\<lambda>j. if m_elem M i j \<noteq> 0 then nd_values x ! j * m_elem M i j else 0)
                      [0..<m_ncols M])"
    by (simp add: row_nz_def sum_list_filter_nz)
  also have "\<dots> = sum_list (map (\<lambda>j. m_elem M i j * nd_values x ! j) [0..<m_ncols M])"
    by (intro arg_cong [where f = sum_list] map_cong) auto
  finally show ?thesis .
qed

lemma sum_list_update:
  fixes x :: "real list"
  assumes "j < n" "j < length x"
  shows "sum_list (map (\<lambda>j'. a j' * (x[j := v]) ! j') [0..<n])
       = sum_list (map (\<lambda>j'. a j' * x ! j') [0..<n]) + a j * (v - x ! j)"
proof -
  have "(\<Sum>j'\<in>{0..<n}. a j' * (x[j := v]) ! j')
      = (\<Sum>j'\<in>{0..<n}. a j' * x ! j' + (if j' = j then a j * (v - x ! j) else 0))"
    using assms(2) by (intro sum.cong) (auto simp: nth_list_update algebra_simps)
  also have "\<dots> = (\<Sum>j'\<in>{0..<n}. a j' * x ! j') + a j * (v - x ! j)"
    using assms(1) by (simp add: sum.distrib)
  finally show ?thesis unfolding interv_sum_list_conv_sum_set_nat by simp
qed

subsection \<open>Each statement of the feature loop keeps the invariant on a float array\<close>

lemma dot_inv: "dot M (nd_values xk) = Inr Ax \<Longrightarrow> Ax_invariant M (xk, Ax)"
  by (auto simp: dot_def Ax_invariant_def list_all_iff split: if_splits)

lemma coordinate_update_is_float:
  "coordinate_update env csc b j st = Inr st' \<Longrightarrow> is_float (fst st') = is_float (fst st)"
  by (cases "fst st")
     (auto simp: coordinate_update_def bindE_Inr_iff Let_def)

lemma recompute_Ax_fst: "recompute_Ax env csr st = Inr st' \<Longrightarrow> fst st' = fst st"
  by (auto simp: recompute_Ax_def bindE_Inr_iff)

lemma coordinate_update_inv:
  assumes inv: "Ax_invariant M st"
    and flt: "is_float (fst st)"
    and upd: "coordinate_update env (csc_matrix M) b j st = Inr st'"
  shows "Ax_invariant M st'"
proof -
  from flt obtain x Ax where st: "st = (FloatArray x, Ax)"
    by (cases st, cases "fst st") auto
  let ?csc = "csc_matrix M"
  let ?lo = "sp_indptr ?csc ! j" and ?hi = "sp_indptr ?csc ! (j + 1)"
  from inv st have lx: "length x = m_ncols M" and lAx: "length Ax = m_nrows M"
    and val: "\<And>i. i < m_nrows M \<Longrightarrow>
        Ax ! i = sum_list (map (\<lambda>j. m_elem M i j * x ! j) [0..<m_ncols M])"
    by (simp_all add: Ax_invariant_def list_all_iff)
  from upd st obtain x_new Ax' where
    j: "j + 1 < length (sp_indptr ?csc)" and xj: "j < length x" and
    fold: "foldE (Ax_step ?csc (FloatArray x) j x_new) [?lo..<?hi] Ax = Inr Ax'" and
    st': "st' = (FloatArray (x[j := x_new]), Ax')"
    by (auto simp: coordinate_update_def bindE_Inr_iff rd_Inr_iff Let_def)
  from xj lx have jn: "j < m_ncols M" by simp
  from foldE_Ax_step [OF fold] have lAx': "length Ax' = length Ax" and
    val': "\<And>i. i < length Ax \<Longrightarrow> Ax' ! i = Ax ! i
        + sum_list (map (\<lambda>k. if sp_indices ?csc ! k = i then sp_data ?csc ! k else 0) [?lo..<?hi])
          * (x_new - x ! j)"
    by simp_all
  have "Ax' ! i = sum_list (map (\<lambda>j'. m_elem M i j' * (x[j := x_new]) ! j') [0..<m_ncols M])"
    if i: "i < m_nrows M" for i
  proof -
    have "Ax' ! i = Ax ! i + m_elem M i j * (x_new - x ! j)"
      using val' [of i] i lAx csc_entry_eq [OF jn i] by simp
    also have "\<dots> = sum_list (map (\<lambda>j'. m_elem M i j' * (x[j := x_new]) ! j') [0..<m_ncols M])"
      using val [OF i] sum_list_update [OF jn xj, of "m_elem M i" x_new] by simp
    finally show ?thesis .
  qed
  then show ?thesis
    using st' lx lAx lAx' by (simp add: Ax_invariant_def list_all_iff)
qed

lemma recompute_Ax_inv:
  assumes inv: "Ax_invariant M st"
    and rec: "recompute_Ax env (csr_matrix M) st = Inr st'"
  shows "Ax_invariant M st'"
proof -
  obtain x Ax where st: "st = (x, Ax)" by (cases st)
  from inv st have lx: "length (nd_values x) = m_ncols M" and lAx: "length Ax = m_nrows M"
    and val: "\<And>i. i < m_nrows M \<Longrightarrow>
        Ax ! i = sum_list (map (\<lambda>j. m_elem M i j * nd_values x ! j) [0..<m_ncols M])"
    by (simp_all add: Ax_invariant_def list_all_iff)
  from rec st obtain Ax' where
    fold: "foldE (recompute_row (csr_matrix M) x) [0..<e_n_samples env] Ax = Inr Ax'" and
    st': "st' = (x, Ax')"
    by (auto simp: recompute_Ax_def bindE_Inr_iff)
  from foldE_recompute_row [OF fold] have lAx': "length Ax' = length Ax" and
    val': "\<And>i. i < length Ax \<Longrightarrow>
        Ax' ! i = (if i \<in> set [0..<e_n_samples env] then row_sum (csr_matrix M) x i else Ax ! i)"
    by simp_all
  have "Ax' ! i = sum_list (map (\<lambda>j. m_elem M i j * nd_values x ! j) [0..<m_ncols M])"
    if i: "i < m_nrows M" for i
    using val' [of i] i lAx val [OF i] csr_row_sum_eq [OF i, of x] by simp
  then show ?thesis
    using st' lx lAx lAx' by (simp add: Ax_invariant_def list_all_iff)
qed

subsection \<open>Every state of a kernel run is a state of the solve\<close>

lemma feature_step_reachable:
  assumes "bcd_reachable f env st"
    and "feature_step env (csr_matrix (l_A f)) (csc_matrix (l_A f)) (l_b f) j st = Inr st'"
  shows "bcd_reachable f env st'"
proof -
  from assms(2) obtain st1 where
    u: "coordinate_update env (csc_matrix (l_A f)) (l_b f) j st = Inr st1" and
    r: "(if j = 0 then recompute_Ax env (csr_matrix (l_A f)) st1 else Inr st1) = Inr st'"
    by (auto simp: feature_step_def bindE_Inr_iff)
  from assms(1) u have "bcd_reachable f env st1" by (rule bcd_reachable.update)
  with r show ?thesis
    by (cases "j = 0") (auto intro: bcd_reachable.resync)
qed

lemma foldE_feature_step_reachable:
  "bcd_reachable f env st \<Longrightarrow>
   foldE (feature_step env (csr_matrix (l_A f)) (csc_matrix (l_A f)) (l_b f)) js st = Inr st' \<Longrightarrow>
   bcd_reachable f env st'"
proof (induction js arbitrary: st)
  case Nil
  then show ?case by simp
next
  case (Cons j js)
  from Cons.prems(2) obtain st1 where
    s1: "feature_step env (csr_matrix (l_A f)) (csc_matrix (l_A f)) (l_b f) j st = Inr st1" and
    s2: "foldE (feature_step env (csr_matrix (l_A f)) (csc_matrix (l_A f)) (l_b f)) js st1 = Inr st'"
    by (auto split: sum.splits)
  from feature_step_reachable [OF Cons.prems(1) s1] s2 show ?case by (rule Cons.IH)
qed

lemma foldE_bcd_epoch_reachable:
  "bcd_reachable f env (st_x s, st_Ax s) \<Longrightarrow>
   foldE (bcd_epoch shuffle env (csr_matrix (l_A f)) (csc_matrix (l_A f)) (l_b f)) its s = Inr s' \<Longrightarrow>
   bcd_reachable f env (st_x s', st_Ax s')"
proof (induction its arbitrary: s)
  case Nil
  then show ?case by simp
next
  case (Cons it its)
  from Cons.prems(2) obtain s1 where
    s1: "bcd_epoch shuffle env (csr_matrix (l_A f)) (csc_matrix (l_A f)) (l_b f) it s = Inr s1" and
    s2: "foldE (bcd_epoch shuffle env (csr_matrix (l_A f)) (csc_matrix (l_A f)) (l_b f)) its s1 = Inr s'"
    by (auto split: sum.splits)
  from s1 obtain st1 where
    "foldE (feature_step env (csr_matrix (l_A f)) (csc_matrix (l_A f)) (l_b f))
       (fst (shuffle (st_rng s) (st_feature_indices s))) (st_x s, st_Ax s) = Inr st1"
    and "st_x s1 = fst st1" "st_Ax s1 = snd st1"
    by (auto simp: bcd_epoch_def bindE_Inr_iff Let_def)
  with foldE_feature_step_reachable [OF Cons.prems(1)] have "bcd_reachable f env (st_x s1, st_Ax s1)"
    by simp
  from this s2 show ?case by (rule Cons.IH)
qed

lemma bcd_algorithm_reachable:
  assumes "dot (l_A f) (nd_values xk) = Inr Ax"
    and "bcd_algorithm shuffle env xk Ax (csr_matrix (l_A f)) (csc_matrix (l_A f)) (l_b f)
           trace_x tol rng = Inr (it, cert, x', Ax', tx, rng')"
  shows "bcd_reachable f env (x', Ax')"
proof -
  from assms(2) obtain s where
    fold: "foldE (bcd_epoch shuffle env (csr_matrix (l_A f)) (csc_matrix (l_A f)) (l_b f))
              [1..<nat (e_max_iter env)]
              \<lparr>st_x = xk, st_Ax = Ax, st_feature_indices = [0..<e_n_features env],
               st_rng = rng, st_it = 0\<rparr> = Inr s"
    and res: "x' = st_x s" "Ax' = st_Ax s"
    by (auto simp: bcd_algorithm_def bindE_Inr_iff)
  from assms(1) have "bcd_reachable f env (xk, Ax)" by (rule bcd_reachable.start)
  with foldE_bcd_epoch_reachable [OF _ fold] res show ?thesis by simp
qed

subsection \<open>The cached prediction on a float array\<close>

text \<open>
  When \<open>x\<close> is a float array (no \<open>x0\<close> given, or an \<open>x0\<close> of floats), every state of a
  solve has \<open>Ax[i] = \<Sum>\<^sub>j A[i,j] \<cdot> x[j]\<close> for every sample \<open>i\<close>, in exact arithmetic:
  the state handed to the kernel has it, and a coordinate update and a recomputation
  keep it.
\<close>

lemma cached_prediction_invariant_float:
  "bcd_reachable f env st \<Longrightarrow> is_float (fst st) \<Longrightarrow> Ax_invariant (l_A f) st"
proof (induction rule: bcd_reachable.induct)
  case (start xk Ax)
  then show ?case by (simp add: dot_inv)
next
  case (update st j st')
  from coordinate_update_is_float [OF update.hyps(2)] update.prems
  have "is_float (fst st)" by simp
  with update show ?case by (blast intro: coordinate_update_inv)
next
  case (resync st st')
  from recompute_Ax_fst [OF resync.hyps(2)] resync.prems have "is_float (fst st)" by simp
  with resync show ?case by (blast intro: recompute_Ax_inv)
qed

text \<open>The state after the update of coordinate \<open>1\<close> on the least-squares problem.\<close>

lemma cached_prediction_invariant_float_example:
  "bcd_reachable ex_f ex_env (FloatArray [0, 5 / 8], [5 / 4, 15 / 8])
   \<and> Ax_invariant (l_A ex_f) (FloatArray [0, 5 / 8], [5 / 4, 15 / 8])"
proof -
  have d: "dot (l_A ex_f) (nd_values (FloatArray [0, 0])) = Inr [0, 0]" by code_simp
  have u: "coordinate_update ex_env (csc_matrix (l_A ex_f)) (l_b ex_f) 1 (FloatArray [0, 0], [0, 0])
             = Inr (FloatArray [0, 5 / 8], [5 / 4, 15 / 8])"
    by code_simp
  have r: "bcd_reachable ex_f ex_env (FloatArray [0, 5 / 8], [5 / 4, 15 / 8])"
    by (rule bcd_reachable.update [OF bcd_reachable.start [OF d] u])
  from cached_prediction_invariant_float [OF r] r show ?thesis by simp
qed

subsection \<open>The epoch loop and the driver\<close>

lemma bcd_epoch_Inr:
  "bcd_epoch shuffle env csr csc b it s = Inr s' \<Longrightarrow>
     st_it s' = int it \<and> st_rng s' = snd (shuffle (st_rng s) (st_feature_indices s))"
  by (auto simp: bcd_epoch_def bindE_Inr_iff Let_def)

lemma foldE_bcd_epoch_it:
  "foldE (bcd_epoch shuffle env csr csc b) its s = Inr s' \<Longrightarrow>
     st_it s' = (if its = [] then st_it s else int (last its))"
proof (induction its arbitrary: s)
  case Nil
  then show ?case by simp
next
  case (Cons a its)
  from Cons.prems obtain s1 where
    s1: "bcd_epoch shuffle env csr csc b a s = Inr s1" and
    s2: "foldE (bcd_epoch shuffle env csr csc b) its s1 = Inr s'"
    by (auto split: sum.splits)
  from Cons.IH [OF s2] bcd_epoch_Inr [OF s1] show ?case by simp
qed

lemma foldE_bcd_epoch_count:
  "foldE (bcd_epoch (counted shuffle) env csr csc b) its s = Inr s' \<Longrightarrow>
     snd (st_rng s') = snd (st_rng s) + length its"
proof (induction its arbitrary: s)
  case Nil
  then show ?case by simp
next
  case (Cons a its)
  from Cons.prems obtain s1 where
    s1: "bcd_epoch (counted shuffle) env csr csc b a s = Inr s1" and
    s2: "foldE (bcd_epoch (counted shuffle) env csr csc b) its s1 = Inr s'"
    by (auto split: sum.splits)
  from bcd_epoch_Inr [OF s1] have "snd (st_rng s1) = Suc (snd (st_rng s))"
    by (simp add: counted_def)
  with Cons.IH [OF s2] show ?case by simp
qed

lemma last_upt_from_1: "1 < n \<Longrightarrow> last [1..<n] = n - 1"
  by (cases n) simp_all

lemma bcd_algorithm_Inr:
  assumes "bcd_algorithm shuffle env x Ax csr csc b trace_x tol rng = Inr (it, cert, x', Ax', tx, rng')"
  shows "it = int (nat (e_max_iter env) - 1) \<and> cert = None \<and> tx = trace_x"
proof -
  from assms obtain s where
    fold: "foldE (bcd_epoch shuffle env csr csc b) [1..<nat (e_max_iter env)]
              \<lparr>st_x = x, st_Ax = Ax, st_feature_indices = [0..<e_n_features env],
               st_rng = rng, st_it = 0\<rparr> = Inr s"
    and res: "it = st_it s" "cert = None" "tx = trace_x"
    by (auto simp: bcd_algorithm_def bindE_Inr_iff)
  from foldE_bcd_epoch_it [OF fold] have "st_it s = int (nat (e_max_iter env) - 1)"
    by (cases "1 < nat (e_max_iter env)") (simp_all add: last_upt_from_1)
  with res show ?thesis by simp
qed

lemma foldE_trace_step_replicate:
  "\<forall>i\<in>set is. i < n \<Longrightarrow>
     foldE (trace_step f g (replicate n row)) is acc
       = Inr (acc @ replicate (length is) (l_value f row + p_value g row))"
proof (induction "is" arbitrary: acc)
  case Nil
  then show ?case by simp
next
  case (Cons a "is")
  then show ?case
    by (simp add: trace_step_def rd_def replicate_app_Cons_same)
qed

lemma minimize_BCD_Inr:
  assumes "minimize_BCD shuffle clk f g x0 step_size max_iter trace verbose tol rng = Inr (r, rng')"
  shows "\<exists>env Ax trace_x n_iter cert xk' Ax' tx trace_func.
     e_max_iter env = max_iter \<and>
     dot (l_A f) (nd_values (case x0 of None \<Rightarrow> FloatArray (replicate (l_n_features f) 0) | Some v \<Rightarrow> v)) = Inr Ax \<and>
     (trace \<longrightarrow> trace_x = replicate (nat max_iter) (replicate (m_ncols (l_A f)) 0)) \<and>
     bcd_algorithm shuffle env
       (case x0 of None \<Rightarrow> FloatArray (replicate (l_n_features f) 0) | Some v \<Rightarrow> v) Ax
       (csr_matrix (l_A f)) (csc_matrix (l_A f)) (l_b f) trace_x tol rng
       = Inr (n_iter, cert, xk', Ax', tx, rng') \<and>
     (trace \<longrightarrow>
        foldE (trace_step f (case g of None \<Rightarrow> ZeroLoss | Some g' \<Rightarrow> g') tx) [0..<nat n_iter] []
          = Inr trace_func) \<and>
     res_x r = nd_values xk' \<and> res_success r = False \<and> res_nit r = n_iter \<and>
     res_trace_func r = Some trace_func \<and> res_certificate r = Some cert"
proof -
  let ?xk = "case x0 of None \<Rightarrow> FloatArray (replicate (l_n_features f) 0) | Some v \<Rightarrow> v"
  let ?g = "case g of None \<Rightarrow> ZeroLoss | Some g' \<Rightarrow> g'"
  note run = assms [unfolded minimize_BCD_def Let_def bindE_Inr_iff]
  from run obtain step Ax trace_x res where
    D: "dot (l_A f) (nd_values ?xk) = Inr Ax" and
    T: "(if trace then if max_iter < 0 then Inl ValueError
           else Inr (replicate (nat max_iter) (replicate (m_ncols (l_A f)) 0))
         else Inr []) = Inr trace_x" and
    K: "bcd_algorithm shuffle
       \<lparr>e_n_samples = m_nrows (l_A f), e_n_features = m_ncols (l_A f), e_max_iter = max_iter,
        e_partial_gradient = l_partial_gradient f, e_prox = p_prox ?g,
        e_step_size = step, e_f_alpha = l_alpha f\<rparr>
       ?xk Ax (csr_matrix (l_A f)) (csc_matrix (l_A f)) (l_b f) trace_x tol rng = Inr res" and
    R: "(case res of (n_iter, certificate, xk', Ax', trace_x', rng') \<Rightarrow>
          bindE (if trace then foldE (trace_step f ?g trace_x') [0..<nat n_iter] [] else Inr [])
            (\<lambda>trace_func.
               Inr (\<lparr>res_x = nd_values xk', res_success = False, res_nit = n_iter,
                   res_message = None, res_trace_func = Some trace_func,
                   res_trace_time =
                     Some (if trace then linspace 0 (c_delta clk) (nat n_iter)
                           else [c_start_offset clk]),
                   res_certificate = Some certificate\<rparr>, rng'))) = Inr (r, rng')"
    by blast
  obtain n_iter cert xk' Ax' tx rng1 where res: "res = (n_iter, cert, xk', Ax', tx, rng1)"
    by (cases res)
  from R [unfolded res] obtain v where
    F: "(if trace then foldE (trace_step f ?g tx) [0..<nat n_iter] [] else Inr []) = Inr v" and
    r: "r = \<lparr>res_x = nd_values xk', res_success = False, res_nit = n_iter,
                   res_message = None, res_trace_func = Some v,
                   res_trace_time =
                     Some (if trace then linspace 0 (c_delta clk) (nat n_iter)
                           else [c_start_offset clk]),
                   res_certificate = Some cert\<rparr>" and rng: "rng1 = rng'"
    by (auto simp: bindE_Inr_iff)
  from T have T': "trace \<longrightarrow> trace_x = replicate (nat max_iter) (replicate (m_ncols (l_A f)) 0)"
    by (auto split: if_splits)
  from F have F': "trace \<longrightarrow> foldE (trace_step f ?g tx) [0..<nat n_iter] [] = Inr v"
    by (cases trace) simp_all
  show ?thesis
    apply (rule exI [of _ "\<lparr>e_n_samples = m_nrows (l_A f), e_n_features = m_ncols (l_A f),
        e_max_iter = max_iter, e_partial_gradient = l_partial_gradient f, e_prox = p_prox ?g,
        e_step_size = step, e_f_alpha = l_alpha f\<rparr>"])
    apply (rule exI [of _ Ax], rule exI [of _ trace_x], rule exI [of _ n_iter],
        rule exI [of _ cert], rule exI [of _ xk'], rule exI [of _ Ax'], rule exI [of _ tx],
        rule exI [of _ v])
    using D T' K F' by (simp add: res rng r)
qed

lemma feature_step_nonzero: "j \<noteq> 0 \<Longrightarrow> feature_step env csr csc b j st = coordinate_update env csc b j st"
  by (cases "coordinate_update env csc b j st") (simp_all add: feature_step_def)

lemma foldE_feature_step_no_zero:
  "0 \<notin> set js \<Longrightarrow> foldE (feature_step env csr csc b) js st = foldE (coordinate_update env csc b) js st"
  by (induction js arbitrary: st) (auto simp: feature_step_nonzero split: sum.splits)

section \<open>The claims\<close>

text \<open>
  C1. For every input with a step size, \<^verbatim>\<open>minimizelp_SAGA\<close> raises before an epoch
  is run and returns no result: the factory raises \<^verbatim>\<open>ValueError\<close> for a negative
  \<open>beta\<close> and otherwise \<^verbatim>\<open>NameError\<close> when it reads \<^verbatim>\<open>A\<close>, which no scope binds; the
  names \<^verbatim>\<open>partial_gradient\<close>, \<^verbatim>\<open>b\<close>, \<^verbatim>\<open>d\<close> and \<^verbatim>\<open>f_alpha\<close> that the closure reads are
  bound in no scope either. This holds for every body of the closure, every shuffle and
  every callback.
\<close>

theorem saga_never_returns:
  "step_size \<noteq> None \<Longrightarrow>
     minimizelp_SAGA shuffle body f_deriv n_samples x0 alpha beta step_size max_iter tol
         callback rng
       = Inl (if beta < 0 then ValueError else NameError)
     \<and> load_global ''A'' = Inl NameError
     \<and> bound_in_saga_kernel ''partial_gradient'' = False
     \<and> bound_in_saga_kernel ''b'' = False
     \<and> bound_in_saga_kernel ''d'' = False
     \<and> bound_in_saga_kernel ''f_alpha'' = False"
  by (cases step_size)
     (simp_all add: minimizelp_SAGA_def factory_SAGA_epoch_raises load_global_A
        bound_in_saga_kernel_def saga_kernel_locals_def factory_locals_def module_globals_def)

text \<open>At \<open>x0 = [0]\<close>, \<open>beta = 0\<close>, step size \<open>1\<close> and five epochs allowed.\<close>

theorem saga_never_returns_witness:
  "Some (1::real) \<noteq> None \<and>
   minimizelp_SAGA (\<lambda>r xs. (xs, r)) (\<lambda>k x idx mg ga s. Inr (x, mg, ga)) (\<lambda>p b. p - b) 1 [0] 0 0
       (Some 1) 5 1 None () = Inl NameError"
  using saga_never_returns [of "Some 1" "\<lambda>r xs. (xs, r)" "\<lambda>k x idx mg ga s. Inr (x, mg, ga)"
      "\<lambda>p b. p - b" 1 "[0]" 0 0 5 1 None "()"]
  by simp

text \<open>
  C2, as amended. With the step size unset, \<^verbatim>\<open>minimizelp_SAGA\<close> raises \<^verbatim>\<open>ValueError\<close>
  at entry and returns no result; \<^verbatim>\<open>minimize_BCD\<close> does not raise for that reason: it
  takes \<open>1 / f.lipschitz_constant('features')\<close> as step size and runs as if that value
  had been passed (for a constant other than zero).
\<close>

theorem step_size_unset:
  assumes "l_lipschitz_constant f \<noteq> 0"
  shows "minimizelp_SAGA shuffle body f_deriv n_samples x0 alpha beta None max_iter tol callback rng
           = Inl ValueError
       \<and> minimize_BCD shuffle' clk f g x0' None max_iter' trace verbose tol' rng'
           = minimize_BCD shuffle' clk f g x0' (Some (1 / l_lipschitz_constant f)) max_iter' trace
               verbose tol' rng'"
  using assms by (simp add: minimizelp_SAGA_def minimize_BCD_def)

text \<open>On the least-squares problem, whose constant is \<open>4\<close>.\<close>

theorem step_size_unset_witness:
  "l_lipschitz_constant ex_f \<noteq> 0
   \<and> minimizelp_SAGA ex_shuffle (\<lambda>k x idx mg ga s. Inr (x, mg, ga)) (\<lambda>p b. p - b) 2 [0, 0] 0 0
        None 2 (1 / 1000) None 0 = Inl ValueError
   \<and> minimize_BCD ex_shuffle ex_clock ex_f None None None 2 False False (1 / 1000) 0
       = minimize_BCD ex_shuffle ex_clock ex_f None None (Some (1 / l_lipschitz_constant ex_f)) 2
           False False (1 / 1000) 0"
proof -
  have h: "l_lipschitz_constant ex_f \<noteq> 0" by (simp add: ex_f_def)
  show ?thesis by (rule conjI, rule h, rule step_size_unset [OF h])
qed

text \<open>C2 as stated fails for \<^verbatim>\<open>minimize_BCD\<close>: called without a step size on the
  least-squares problem with \<open>max_iter = 2\<close>, it returns a result, reached with the step
  size \<open>1 / 4\<close>.\<close>

theorem bcd_step_size_default_counterexample:
  "minimize_BCD ex_shuffle ex_clock ex_f None None None 2 False False (1 / 1000) 0
     = Inr (\<lparr>res_x = [- (1 / 32), 5 / 8], res_success = False, res_nit = 1, res_message = None,
           res_trace_func = Some [], res_trace_time = Some [0],
           res_certificate = Some None\<rparr>, 1)"
  by code_simp

text \<open>
  C3. The kernel of \<^verbatim>\<open>minimize_BCD\<close> never reads \<open>tol\<close>, so no tolerance stops it
  early; but \<^verbatim>\<open>for it in range(1, max_iter)\<close> runs \<open>max_iter - 1\<close> epochs, not
  \<open>max_iter\<close>: a run that returns has shuffled the feature order \<open>max_iter - 1\<close> times
  (none for \<open>max_iter \<le> 1\<close>) and returns that number as \<open>it\<close>.
\<close>

theorem bcd_runs_max_iter_minus_one_epochs:
  "bcd_algorithm shuffle env x Ax csr csc b trace_x tol rng
     = bcd_algorithm shuffle env x Ax csr csc b trace_x tol' rng
   \<and> (bcd_algorithm (counted shuffle) env x Ax csr csc b trace_x tol (rng, 0)
         = Inr (it, cert, x', Ax', tx, (rng', c))
       \<longrightarrow> c = nat (e_max_iter env) - 1 \<and> it = int (nat (e_max_iter env) - 1))"
proof (intro conjI impI)
  show "bcd_algorithm shuffle env x Ax csr csc b trace_x tol rng
     = bcd_algorithm shuffle env x Ax csr csc b trace_x tol' rng"
    by (simp add: bcd_algorithm_def)
next
  assume run: "bcd_algorithm (counted shuffle) env x Ax csr csc b trace_x tol (rng, 0)
         = Inr (it, cert, x', Ax', tx, (rng', c))"
  then obtain s where
    fold: "foldE (bcd_epoch (counted shuffle) env csr csc b) [1..<nat (e_max_iter env)]
              \<lparr>st_x = x, st_Ax = Ax, st_feature_indices = [0..<e_n_features env],
               st_rng = (rng, 0), st_it = 0\<rparr> = Inr s"
    and res: "st_rng s = (rng', c)"
    by (auto simp: bcd_algorithm_def bindE_Inr_iff)
  from foldE_bcd_epoch_count [OF fold] res show "c = nat (e_max_iter env) - 1" by simp
next
  assume run: "bcd_algorithm (counted shuffle) env x Ax csr csc b trace_x tol (rng, 0)
         = Inr (it, cert, x', Ax', tx, (rng', c))"
  from bcd_algorithm_Inr [OF run] show "it = int (nat (e_max_iter env) - 1)" by simp
qed

text \<open>With \<open>max_iter = 1\<close> the kernel returns at once: no shuffle, \<open>x\<close> and \<open>Ax\<close> as
  passed, \<open>it = 0\<close>.\<close>

theorem bcd_runs_max_iter_minus_one_epochs_witness:
  "bcd_algorithm (counted ex_shuffle) (ex_env\<lparr>e_max_iter := 1\<rparr>) (FloatArray [0, 0]) [0, 0]
      (csr_matrix ex_M) (csc_matrix ex_M) [1, 1] [] (1 / 1000) (0, 0)
     = Inr (0, None, FloatArray [0, 0], [0, 0], [], (0, 0))
   \<and> (0::nat) = nat (e_max_iter (ex_env\<lparr>e_max_iter := 1\<rparr>)) - 1"
proof -
  have run: "bcd_algorithm (counted ex_shuffle) (ex_env\<lparr>e_max_iter := 1\<rparr>) (FloatArray [0, 0]) [0, 0]
      (csr_matrix ex_M) (csc_matrix ex_M) [1, 1] [] (1 / 1000) (0, 0)
     = Inr (0, None, FloatArray [0, 0], [0, 0], [], (0, 0))"
    by code_simp
  from bcd_runs_max_iter_minus_one_epochs [of ex_shuffle "ex_env\<lparr>e_max_iter := 1\<rparr>" "FloatArray [0, 0]" "[0, 0]"
      "csr_matrix ex_M" "csc_matrix ex_M" "[1, 1]" "[]" "1 / 1000" 0 "1 / 1000" 0 None
      "FloatArray [0, 0]" "[0, 0]" "[]" 0 0] run
  show ?thesis by simp
qed

text \<open>
  C4. For every \<open>beta > 0\<close> the proximal operator that the factory defines returns
  \<^verbatim>\<open>None\<close> for every coordinate value and step, not the soft-threshold value: its body
  evaluates the soft-threshold expression and has no \<^verbatim>\<open>return\<close>.
\<close>

theorem prox_l1_returns_None:
  "0 < beta \<Longrightarrow> \<exists>p. prox beta = Inr p \<and> (\<forall>v gamma. p v gamma = PyNone)"
  by (simp add: prox_def prox_l1_def)

text \<open>At \<open>beta = 1\<close>, \<open>v = 3\<close>, \<open>\<gamma> = 1\<close> the soft-threshold value is \<open>2\<close>.\<close>

theorem prox_l1_returns_None_witness:
  "(0::real) < 1 \<and> (\<exists>p. prox 1 = Inr p \<and> p 3 1 = PyNone) \<and> spec_soft_threshold 1 3 1 = 2"
  using prox_l1_returns_None [of 1] by (auto simp: spec_soft_threshold_def)

text \<open>
  C5. \<^verbatim>\<open>minimizelp_SAGA\<close> never reaches the comparison of the coefficient change with
  \<open>tol\<close>: with a step size and \<open>beta = 0\<close>, for every \<open>max_iter\<close>, \<open>tol\<close> and initial
  vector, it raises \<^verbatim>\<open>NameError\<close> in the factory and returns no result, neither with
  \<open>success = True\<close> nor with \<open>success = False\<close>.
\<close>

theorem saga_raises_before_first_epoch:
  "minimizelp_SAGA shuffle body f_deriv n_samples x0 alpha 0 (Some s) max_iter tol callback rng
     = Inl NameError"
  by (simp add: minimizelp_SAGA_def factory_SAGA_epoch_raises)

text \<open>
  C6, as amended. In a pass of \<^verbatim>\<open>minimize_BCD\<close> the recomputation of \<open>Ax\<close> from the CSR
  arrays follows the coordinate update of the literal feature index \<open>0\<close> and of no
  other index: for a shuffled order in which \<open>0\<close> occurs once, after the indices \<open>pre\<close>
  and before the indices \<open>post\<close>, the pass is the coordinate updates of \<open>pre\<close>, the
  update of \<open>0\<close>, the recomputation, and the coordinate updates of \<open>post\<close>.
\<close>

theorem recompute_at_feature_zero:
  assumes "0 \<notin> set pre" and "0 \<notin> set post"
  shows "foldE (feature_step env csr csc b) (pre @ 0 # post) st
     = bindE (foldE (coordinate_update env csc b) pre st) (\<lambda>s1.
       bindE (coordinate_update env csc b 0 s1) (\<lambda>s2.
       bindE (recompute_Ax env csr s2) (\<lambda>s3.
         foldE (coordinate_update env csc b) post s3)))"
proof (cases "foldE (coordinate_update env csc b) pre st")
  case (Inl e)
  with assms show ?thesis
    by (simp add: foldE_append foldE_feature_step_no_zero)
next
  case (Inr s1)
  show ?thesis
  proof (cases "coordinate_update env csc b 0 s1")
    case (Inl e)
    with Inr assms show ?thesis
      by (simp add: foldE_append foldE_feature_step_no_zero feature_step_def)
  next
    case s2: (Inr s2)
    show ?thesis
    proof (cases "recompute_Ax env csr s2")
      case (Inl e)
      with s2 Inr assms show ?thesis
        by (simp add: foldE_append foldE_feature_step_no_zero feature_step_def)
    next
      case s3: (Inr s3)
      with s2 Inr assms show ?thesis
        by (simp add: foldE_append foldE_feature_step_no_zero feature_step_def)
    qed
  qed
qed

text \<open>On the order \<open>[1, 0]\<close>, started on a drifted cached prediction.\<close>

theorem recompute_at_feature_zero_witness:
  "0 \<notin> set [Suc 0] \<and> 0 \<notin> set ([]::nat list)
   \<and> foldE (feature_step drift_env (csr_matrix drift_M) (csc_matrix drift_M) [0]) ([Suc 0] @ 0 # [])
        (FloatArray [0, 0], [5])
      = Inr (FloatArray [0, - 5], [- 5])"
proof -
  have h1: "0 \<notin> set [Suc 0]" and h2: "0 \<notin> set ([]::nat list)" by simp_all
  have e: "bindE (foldE (coordinate_update drift_env (csc_matrix drift_M) [0]) [Suc 0] (FloatArray [0, 0], [5]))
       (\<lambda>s1. bindE (coordinate_update drift_env (csc_matrix drift_M) [0] 0 s1)
       (\<lambda>s2. bindE (recompute_Ax drift_env (csr_matrix drift_M) s2)
       (\<lambda>s3. foldE (coordinate_update drift_env (csc_matrix drift_M) [0]) [] s3)))
     = Inr (FloatArray [0, - 5], [- 5])"
    by code_simp
  from recompute_at_feature_zero [OF h1 h2, of drift_env "csr_matrix drift_M" "csc_matrix drift_M"
      "[0]" "(FloatArray [0, 0], [5])"] e h1 h2
  show ?thesis by simp
qed

text \<open>C6 as stated fails: on the order \<open>[1, 0]\<close> the pass of the source and the pass
  that recomputes after the first index of the order end in different states.\<close>

theorem recompute_first_index_counterexample:
  "foldE (feature_step drift_env (csr_matrix drift_M) (csc_matrix drift_M) [0]) [1, 0] (FloatArray [0, 0], [5])
     = Inr (FloatArray [0, - 5], [- 5])
   \<and> spec_pass drift_env (csr_matrix drift_M) (csc_matrix drift_M) [0] [1, 0] (FloatArray [0, 0], [5])
     = Inr (FloatArray [5, - 5], [0])
   \<and> foldE (feature_step drift_env (csr_matrix drift_M) (csc_matrix drift_M) [0]) [1, 0] (FloatArray [0, 0], [5])
     \<noteq> spec_pass drift_env (csr_matrix drift_M) (csc_matrix drift_M) [0] [1, 0] (FloatArray [0, 0], [5])"
proof -
  have a: "foldE (feature_step drift_env (csr_matrix drift_M) (csc_matrix drift_M) [0]) [1, 0]
             (FloatArray [0, 0], [5]) = Inr (FloatArray [0, - 5], [- 5])"
    by code_simp
  have b: "spec_pass drift_env (csr_matrix drift_M) (csc_matrix drift_M) [0] [1, 0] (FloatArray [0, 0], [5])
             = Inr (FloatArray [5, - 5], [0])"
    by code_simp
  show ?thesis unfolding a b by simp
qed

text \<open>
  C7. The invariant \<open>Ax[i] = \<Sum>\<^sub>j A[i,j] \<cdot> x[j]\<close> does not hold throughout every solve of
  \<^verbatim>\<open>minimize_BCD\<close>: the driver copies \<open>x0\<close> with its element type, and on an integer
  \<open>x0\<close> the kernel moves \<open>Ax\<close> by the float \<open>x_new - x[j]\<close> and then stores the integral
  part of \<open>x_new\<close> in \<open>x[j]\<close>. On the least-squares problem with \<open>x0 = [0, 0]\<close> of
  integers, the update of coordinate \<open>1\<close> leaves \<open>x = [0, 0]\<close> and \<open>Ax = [5/4, 15/8]\<close>,
  a state of the solve in which the invariant fails; the solve returns \<open>x = [0, 0]\<close>.
\<close>

theorem cached_prediction_breaks_on_integer_x0:
  "dot (l_A ex_f) (nd_values (IntArray [0, 0])) = Inr [0, 0]
   \<and> coordinate_update ex_env (csc_matrix (l_A ex_f)) (l_b ex_f) 1 (IntArray [0, 0], [0, 0])
       = Inr (IntArray [0, 0], [5 / 4, 15 / 8])
   \<and> bcd_reachable ex_f ex_env (IntArray [0, 0], [5 / 4, 15 / 8])
   \<and> Ax_invariant (l_A ex_f) (IntArray [0, 0], [5 / 4, 15 / 8]) = False
   \<and> minimize_BCD ex_shuffle ex_clock ex_f None (Some (IntArray [0, 0])) None 2 False False
         (1 / 1000) 0
       = Inr (\<lparr>res_x = [0, 0], res_success = False, res_nit = 1, res_message = None,
              res_trace_func = Some [], res_trace_time = Some [0],
              res_certificate = Some None\<rparr>, 1)"
proof -
  have d: "dot (l_A ex_f) (nd_values (IntArray [0, 0])) = Inr [0, 0]" by code_simp
  have u: "coordinate_update ex_env (csc_matrix (l_A ex_f)) (l_b ex_f) 1 (IntArray [0, 0], [0, 0])
             = Inr (IntArray [0, 0], [5 / 4, 15 / 8])"
    by code_simp
  have r: "bcd_reachable ex_f ex_env (IntArray [0, 0], [5 / 4, 15 / 8])"
    by (rule bcd_reachable.update [OF bcd_reachable.start [OF d] u])
  have v: "Ax_invariant (l_A ex_f) (IntArray [0, 0], [5 / 4, 15 / 8]) = False"
    by code_simp
  have m: "minimize_BCD ex_shuffle ex_clock ex_f None (Some (IntArray [0, 0])) None 2 False False
         (1 / 1000) 0
       = Inr (\<lparr>res_x = [0, 0], res_success = False, res_nit = 1, res_message = None,
              res_trace_func = Some [], res_trace_time = Some [0],
              res_certificate = Some None\<rparr>, 1)"
    by code_simp
  from d u r v m show ?thesis by simp
qed

text \<open>
  C8. With \<open>trace = True\<close>, the \<open>trace_func\<close> of a result of \<^verbatim>\<open>minimize_BCD\<close> does not
  follow the iterates: the kernel never writes the trace buffer, so every entry is the
  objective \<open>f + g\<close> at the zero vector, once per epoch counted in \<open>nit\<close>.
\<close>

theorem trace_func_constant:
  assumes "minimize_BCD shuffle clk f g x0 step_size max_iter True verbose tol rng = Inr (r, rng')"
  shows "res_trace_func r =
     Some (replicate (nat (res_nit r))
            (l_value f (replicate (m_ncols (l_A f)) 0)
             + p_value (case g of None \<Rightarrow> ZeroLoss | Some g' \<Rightarrow> g')
                 (replicate (m_ncols (l_A f)) 0)))"
proof -
  let ?g = "case g of None \<Rightarrow> ZeroLoss | Some g' \<Rightarrow> g'"
  let ?row = "replicate (m_ncols (l_A f)) (0::real)"
  from minimize_BCD_Inr [OF assms] obtain Ax trace_x n_iter cert xk' Ax' tx trace_func env
    where tx0: "trace_x = replicate (nat max_iter) ?row"
      and env: "e_max_iter env = max_iter"
      and run: "bcd_algorithm shuffle env
         (case x0 of None \<Rightarrow> FloatArray (replicate (l_n_features f) 0) | Some v \<Rightarrow> v) Ax
         (csr_matrix (l_A f)) (csc_matrix (l_A f)) (l_b f) trace_x tol rng
         = Inr (n_iter, cert, xk', Ax', tx, rng')"
      and tf: "foldE (trace_step f ?g tx) [0..<nat n_iter] [] = Inr trace_func"
      and r: "res_trace_func r = Some trace_func" "res_nit r = n_iter"
    by blast
  from bcd_algorithm_Inr [OF run] env tx0 have
    n: "nat n_iter = nat max_iter - 1" and tx: "tx = replicate (nat max_iter) ?row"
    by simp_all
  have "\<forall>i\<in>set [0..<nat n_iter]. i < nat max_iter" using n by auto
  from foldE_trace_step_replicate [OF this, of f ?g ?row "[]"] tf tx
  have "trace_func = replicate (nat n_iter) (l_value f ?row + p_value ?g ?row)" by simp
  with r show ?thesis by simp
qed

text \<open>On the least-squares problem one epoch moves \<open>x\<close> to \<open>(-1/32, 5/8)\<close>, where the
  objective is \<open>833/2048\<close>; the recorded value is \<open>1\<close>, the objective at zero.\<close>

theorem trace_func_constant_witness:
  "minimize_BCD ex_shuffle ex_clock ex_f None None None 2 True False (1 / 1000) 0
     = Inr (\<lparr>res_x = [- (1 / 32), 5 / 8], res_success = False, res_nit = 1, res_message = None,
           res_trace_func = Some [1], res_trace_time = Some [0],
           res_certificate = Some None\<rparr>, 1)
   \<and> l_value ex_f [- (1 / 32), 5 / 8] + p_value ZeroLoss [- (1 / 32), 5 / 8] = 833 / 2048
   \<and> l_value ex_f (replicate (m_ncols (l_A ex_f)) 0)
       + p_value ZeroLoss (replicate (m_ncols (l_A ex_f)) 0) = 1"
proof -
  have run: "minimize_BCD ex_shuffle ex_clock ex_f None None None 2 True False (1 / 1000) 0
     = Inr (\<lparr>res_x = [- (1 / 32), 5 / 8], res_success = False, res_nit = 1, res_message = None,
           res_trace_func = Some [1], res_trace_time = Some [0],
           res_certificate = Some None\<rparr>, 1)"
    by code_simp
  have v: "l_value ex_f [- (1 / 32), 5 / 8] + p_value ZeroLoss [- (1 / 32), 5 / 8] = 833 / 2048"
    by code_simp
  from trace_func_constant [OF run] have
    "l_value ex_f (replicate (m_ncols (l_A ex_f)) 0)
       + p_value ZeroLoss (replicate (m_ncols (l_A ex_f)) 0) = 1"
    by simp
  with run v show ?thesis by simp
qed

text \<open>
  C9. With \<open>max_iter = 0\<close>, \<^verbatim>\<open>minimizelp_SAGA\<close> raises, and \<^verbatim>\<open>minimize_BCD\<close> either
  raises or returns \<open>success = False\<close>, \<open>nit = 0\<close> and the initial vector (the supplied
  \<open>x0\<close>, or zeros when none is supplied) as \<open>x\<close>, with the random state untouched: no
  epoch is run.
\<close>

theorem max_iter_zero:
  "(\<exists>e. minimizelp_SAGA shuffle body f_deriv n_samples x0 alpha beta step_size 0 tol callback rng
          = Inl e)
   \<and> ((\<exists>e. minimize_BCD shuffle' clk f g x0' step_size' 0 trace verbose tol' rng = Inl e)
      \<or> (\<exists>r. minimize_BCD shuffle' clk f g x0' step_size' 0 trace verbose tol' rng = Inr (r, rng)
            \<and> res_success r = False \<and> res_nit r = 0
            \<and> res_x r = nd_values (case x0' of None \<Rightarrow> FloatArray (replicate (l_n_features f) 0) | Some v \<Rightarrow> v)))"
proof (rule conjI)
  show "\<exists>e. minimizelp_SAGA shuffle body f_deriv n_samples x0 alpha beta step_size 0 tol callback rng
          = Inl e"
    by (simp add: minimizelp_SAGA_raises)
next
  let ?run = "minimize_BCD shuffle' clk f g x0' step_size' 0 trace verbose tol' rng"
  show "(\<exists>e. ?run = Inl e)
      \<or> (\<exists>r. ?run = Inr (r, rng)
            \<and> res_success r = False \<and> res_nit r = 0
            \<and> res_x r = nd_values (case x0' of None \<Rightarrow> FloatArray (replicate (l_n_features f) 0) | Some v \<Rightarrow> v))"
  proof (cases ?run)
    case (Inl e)
    then show ?thesis by simp
  next
    case (Inr p)
    obtain r rng' where p: "p = (r, rng')" by (cases p)
    from minimize_BCD_Inr [OF Inr [unfolded p]] obtain env Ax csr csc b trace_x n_iter cert xk' Ax' tx
      where run: "bcd_algorithm shuffle' env
           (case x0' of None \<Rightarrow> FloatArray (replicate (l_n_features f) 0) | Some v \<Rightarrow> v) Ax csr csc b trace_x tol' rng
         = Inr (n_iter, cert, xk', Ax', tx, rng')"
        and env: "e_max_iter env = 0"
        and r: "res_success r = False" "res_nit r = n_iter" "res_x r = nd_values xk'"
      by blast
    from run env have "xk' = (case x0' of None \<Rightarrow> FloatArray (replicate (l_n_features f) 0) | Some v \<Rightarrow> v)"
      and "rng' = rng" and "n_iter = 0"
      by (simp_all add: bcd_algorithm_def)
    with r Inr p show ?thesis by simp
  qed
qed

text \<open>
  C10. Every result that \<^verbatim>\<open>minimize_BCD\<close> returns has \<open>success = False\<close> and the
  certificate \<^verbatim>\<open>None\<close>.
\<close>

theorem bcd_never_succeeds:
  assumes "minimize_BCD shuffle clk f g x0 step_size max_iter trace verbose tol rng = Inr (r, rng')"
  shows "res_success r = False \<and> res_certificate r = Some None"
proof -
  from minimize_BCD_Inr [OF assms] obtain env xk Ax csr csc b trace_x n_iter cert xk' Ax' tx
    where run: "bcd_algorithm shuffle env xk Ax csr csc b trace_x tol rng
         = Inr (n_iter, cert, xk', Ax', tx, rng')"
      and r: "res_success r = False" "res_certificate r = Some cert"
    by blast
  from bcd_algorithm_Inr [OF run] r show ?thesis by simp
qed

text \<open>A run of two epochs on the least-squares problem.\<close>

theorem bcd_never_succeeds_witness:
  "minimize_BCD ex_shuffle ex_clock ex_f None None None 3 False False (1 / 1000) 0
     = Inr (\<lparr>res_x = [- (15 / 256), 255 / 1024], res_success = False, res_nit = 2,
            res_message = None, res_trace_func = Some [],
            res_trace_time = Some [0], res_certificate = Some None\<rparr>, 2)
   \<and> res_success \<lparr>res_x = [- (15 / 256), 255 / 1024], res_success = False, res_nit = 2,
            res_message = None, res_trace_func = Some [],
            res_trace_time = Some [0], res_certificate = Some None\<rparr> = False"
proof -
  have run: "minimize_BCD ex_shuffle ex_clock ex_f None None None 3 False False (1 / 1000) 0
     = Inr (\<lparr>res_x = [- (15 / 256), 255 / 1024], res_success = False, res_nit = 2,
            res_message = None, res_trace_func = Some [],
            res_trace_time = Some [0], res_certificate = Some None\<rparr>, 2)"
    by code_simp
  from bcd_never_succeeds [OF run] run show ?thesis by simp
qed

end
